theory Spec2Isabelle
  imports Main
begin

section \<open>JavaScript values\<close>

text \<open>
  JavaScript strings are modelled as \<open>string\<close>. A property that may be absent
  (\<open>undefined\<close> or \<open>null\<close>) is a \<open>string option\<close>. The source tests such values
  for truthiness: \<open>undefined\<close>, \<open>null\<close> and the empty string are falsy.
\<close>

definition truthy :: "string option \<Rightarrow> bool" where
  "truthy v = (case v of None \<Rightarrow> False | Some s \<Rightarrow> s \<noteq> [])"

text \<open>\<open>a || b\<close> on two possibly absent strings, and \<open>a || 'default'\<close>.\<close>

definition js_or :: "string option \<Rightarrow> string option \<Rightarrow> string option" where
  "js_or a b = (if truthy a then a else b)"

definition or_else :: "string option \<Rightarrow> string \<Rightarrow> string" where
  "or_else a d = (case a of None \<Rightarrow> d | Some s \<Rightarrow> if s = [] then d else s)"

text \<open>
  \<open>String.prototype.toLowerCase\<close>, on the ASCII letters. The theorems below use only
  that it is a function on strings that maps no non-empty string to the empty one.
\<close>

definition toLowerChar :: "char \<Rightarrow> char" where
  "toLowerChar c =
     (let n = (of_char c :: nat) in if 65 \<le> n \<and> n \<le> 90 then char_of (n + 32) else c)"

definition toLowerCase :: "string \<Rightarrow> string" where
  "toLowerCase s = map toLowerChar s"

text \<open>\<open>Array.prototype.join\<close>.\<close>

fun join :: "string \<Rightarrow> string list \<Rightarrow> string" where
  "join sep [] = []"
| "join sep [x] = x"
| "join sep (x # y # ys) = x @ sep @ join sep (y # ys)"

section \<open>Interaction records and the network\<close>

text \<open>
  An interaction object as the pages read it. The pages tell the three kinds of
  interaction apart by which properties are present, so one record with optional
  properties stands for all of them.
\<close>

record interaction =
  severity :: "string option"
  drug :: "string option"
  interaction_prop :: "string option"
  name_prop :: "string option"
  interaction_name :: "string option"
  disease_name :: "string option"
  hazard_level :: "string option"
  plausibility :: "string option"
  applicable_conditions :: "string option"
  professional_description :: "string option"
  patient_description :: "string option"
  ai_description :: "string option"
  interaction_id :: "nat option"

text \<open>The body of a \<open>/check_drug_interactions\<close> response, as the results page reads it.\<close>

record interactions_bundle =
  interactions :: "interaction list option"
  food_interactions :: "interaction list option"
  disease_interactions :: "interaction list option"
  drugs :: "string list option"
  prescribed_drug :: "string option"
  current_medications :: "string list option"

text \<open>
  The requests the pages issue with \<open>fetch\<close>. A request records the route and the
  fields of its query or body:
  \<^item> \<open>ValidateDrugs ds\<close>: \<open>POST /validate_drugs {drugs: ds}\<close>;
  \<^item> \<open>SearchConditions c\<close>: \<open>GET /search_conditions?input=c\<close>;
  \<^item> \<open>CheckDrugInteractions ds p\<close>:
    \<open>POST /check_drug_interactions {drugs: ds, prescribed_drug: p}\<close>;
  \<^item> \<open>Autocomplete ty q\<close>: \<open>GET /ty/autocomplete?q=q\<close>;
  \<^item> \<open>TranslateDescription p i\<close>:
    \<open>POST /translate_description {professional_description: p, interaction_id: i}\<close>
    (\<open>JSON.stringify\<close> leaves an \<open>undefined\<close> property out: \<open>None\<close>).
\<close>

datatype request =
    ValidateDrugs "string list"
  | SearchConditions string
  | CheckDrugInteractions "string list" string
  | Autocomplete string string
  | TranslateDescription "string option" "nat option"

text \<open>
  What an awaited \<open>fetch(...)\<close> followed by \<open>response.json()\<close> yields: \<open>Threw\<close>
  when either rejects (the enclosing \<open>catch\<close> runs), \<open>Reply v\<close> with the parsed body.
\<close>

datatype 'a reply = Threw | Reply 'a

text \<open>Every page keeps the log of the requests it has issued, oldest first.\<close>

record net =
  network :: "request list"

definition fetch :: "request \<Rightarrow> 'a net_scheme \<Rightarrow> 'a net_scheme" where
  "fetch rq st = st\<lparr>network := network st @ [rq]\<rparr>"

text \<open>The requests issued between an earlier state and a later one.\<close>

definition issued :: "'a net_scheme \<Rightarrow> 'b net_scheme \<Rightarrow> request list" where
  "issued st st' = drop (length (network st)) (network st')"

section \<open>The search page (index.js)\<close>

text \<open>The page on which a check is entered: \<open>src/index.js\<close>.\<close>

definition MAX_MEDICATIONS :: nat where
  "MAX_MEDICATIONS = 5"

text \<open>An autocomplete dropdown: whether it has the class \<open>show\<close>, and its items.\<close>

record dropdown =
  dd_show :: bool
  dd_items :: "(string \<times> string option) list"

datatype dropdown_id = DrugAutocomplete | ConditionAutocomplete | MedicationAutocomplete

text \<open>
  The state of the page: the global \<open>selectedMedications\<close>, the parts of the document
  the functions write, and the entries of \<open>localStorage\<close> and \<open>window.location\<close>
  they set. \<open>errorMessage\<close> is the text of the error modal when it is displayed.
\<close>

record index_page = net +
  selectedMedications :: "string list"
  errorMessage :: "string option"
  selectedTags :: "string list"
  medCount :: nat
  medicationSearchInput :: string
  medicationInputDisabled :: bool
  medicationInputPlaceholder :: string
  drugAutocomplete :: dropdown
  conditionAutocomplete :: dropdown
  medicationAutocomplete :: dropdown
  checkBtnDisabled :: bool
  btnLoading :: bool
  results :: string
  pharmacheck_token :: "string option"
  pharmacheck_user :: "string option"
  interactionsData :: "interactions_bundle option"
  location :: "string option"

definition showError :: "string \<Rightarrow> index_page \<Rightarrow> index_page" where
  "showError message st = st\<lparr>errorMessage := Some message\<rparr>"

definition logout :: "index_page \<Rightarrow> index_page" where
  "logout st =
     st\<lparr>pharmacheck_token := None, pharmacheck_user := None,
        location := Some ''/welcome.html''\<rparr>"

subsection \<open>The medication multi-selector\<close>

definition renderSelectedMedications :: "index_page \<Rightarrow> index_page" where
  "renderSelectedMedications st =
     (let st1 = st\<lparr>selectedTags := selectedMedications st,
                    medCount := length (selectedMedications st)\<rparr>
      in if length (selectedMedications st) \<ge> MAX_MEDICATIONS
         then st1\<lparr>medicationInputDisabled := True,
                  medicationInputPlaceholder := ''Maximum medications reached''\<rparr>
         else st1\<lparr>medicationInputDisabled := False,
                  medicationInputPlaceholder := ''Search and add medications...''\<rparr>)"

text \<open>
  \<open>selectedMedications.find(m => m.toLowerCase() === name.toLowerCase())\<close>, used as a
  condition: \<open>find\<close> returns the first matching element itself (or \<open>undefined\<close>), and
  the condition holds when that element is truthy.
\<close>

definition already_added :: "string \<Rightarrow> string list \<Rightarrow> bool" where
  "already_added nm meds = truthy (find (\<lambda>m. toLowerCase m = toLowerCase nm) meds)"

definition addMedication :: "string \<Rightarrow> index_page \<Rightarrow> index_page" where
  "addMedication nm st =
     (if length (selectedMedications st) \<ge> MAX_MEDICATIONS
      then showError ''Maximum 5 medications allowed'' st
      else if already_added nm (selectedMedications st)
      then showError (nm @ '' is already added'') st
      else (renderSelectedMedications
              (st\<lparr>selectedMedications := selectedMedications st @ [nm]\<rparr>))
             \<lparr>medicationSearchInput := [],
              medicationAutocomplete := (medicationAutocomplete st)\<lparr>dd_show := False\<rparr>\<rparr>)"

definition removeMedication :: "string \<Rightarrow> index_page \<Rightarrow> index_page" where
  "removeMedication nm st =
     renderSelectedMedications
       (st\<lparr>selectedMedications := filter (\<lambda>m. m \<noteq> nm) (selectedMedications st)\<rparr>)"

text \<open>
  The invariant the two checks of \<open>addMedication\<close> aim at: at most
  \<open>MAX_MEDICATIONS\<close> names, no two of them equal case-insensitively.
\<close>

definition medications_invariant :: "string list \<Rightarrow> bool" where
  "medications_invariant meds =
     (length meds \<le> MAX_MEDICATIONS \<and> distinct (map toLowerCase meds))"

subsection \<open>Autocomplete\<close>

definition get_dropdown :: "dropdown_id \<Rightarrow> index_page \<Rightarrow> dropdown" where
  "get_dropdown d st =
     (case d of DrugAutocomplete \<Rightarrow> drugAutocomplete st
      | ConditionAutocomplete \<Rightarrow> conditionAutocomplete st
      | MedicationAutocomplete \<Rightarrow> medicationAutocomplete st)"

definition set_dropdown :: "dropdown_id \<Rightarrow> dropdown \<Rightarrow> index_page \<Rightarrow> index_page" where
  "set_dropdown d v st =
     (case d of DrugAutocomplete \<Rightarrow> st\<lparr>drugAutocomplete := v\<rparr>
      | ConditionAutocomplete \<Rightarrow> st\<lparr>conditionAutocomplete := v\<rparr>
      | MedicationAutocomplete \<Rightarrow> st\<lparr>medicationAutocomplete := v\<rparr>)"

definition hide_dropdown :: "dropdown_id \<Rightarrow> index_page \<Rightarrow> index_page" where
  "hide_dropdown d st = set_dropdown d ((get_dropdown d st)\<lparr>dd_show := False\<rparr>) st"

text \<open>
  \<open>fetchAutocomplete(query, type, dropdown, isMultiSelect)\<close>. The argument \<open>resp\<close> is
  what the server answers if the request is made: the list of \<open>{name, generic_name}\<close>
  (\<open>Threw\<close> also stands for a body that is no array, which throws in the same \<open>try\<close>).
\<close>

definition fetchAutocomplete ::
  "string \<Rightarrow> string \<Rightarrow> dropdown_id \<Rightarrow> bool \<Rightarrow> (string \<times> string option) list reply
     \<Rightarrow> index_page \<Rightarrow> index_page" where
  "fetchAutocomplete query ty d isMultiSelect resp st =
     (if length query < 2 then hide_dropdown d st
      else
        let st1 = fetch (Autocomplete ty query) st in
        (case resp of
          Threw \<Rightarrow> hide_dropdown d st1
        | Reply dat \<Rightarrow>
            if length dat = 0 then hide_dropdown d st1
            else
              let filteredData =
                    (if isMultiSelect
                     then filter (\<lambda>item. \<not> already_added (fst item) (selectedMedications st1)) dat
                     else dat)
              in if length filteredData = 0 then hide_dropdown d st1
                 else set_dropdown d \<lparr>dd_show = True, dd_items = filteredData\<rparr> st1))"

subsection \<open>The aggregate interaction check\<close>

definition resetButton :: "index_page \<Rightarrow> index_page" where
  "resetButton st = st\<lparr>checkBtnDisabled := False, btnLoading := False\<rparr>"

text \<open>\<open>data.not_found_drugs && data.not_found_drugs.length > 0\<close>.\<close>

definition has_not_found :: "string list option \<Rightarrow> bool" where
  "has_not_found not_found_drugs =
     (case not_found_drugs of None \<Rightarrow> False | Some l \<Rightarrow> length l > 0)"

text \<open>
  \<open>!conditionData || !conditionData[0]\<close> is the negation of this: the body is an
  array (\<open>None\<close>: \<open>null\<close>) whose first element is present and truthy.
\<close>

definition condition_found :: "string option list option \<Rightarrow> bool" where
  "condition_found conditionData =
     (case conditionData of None \<Rightarrow> False | Some [] \<Rightarrow> False | Some (x # _) \<Rightarrow> truthy x)"

definition drug_not_found_message :: "string \<Rightarrow> string" where
  "drug_not_found_message drugInput =
     ''Drug '' @ [CHR 0x22] @ drugInput @ [CHR 0x22] @
     '' was not found. Please check the spelling or try a different name.''"

definition condition_not_found_message :: "string \<Rightarrow> string" where
  "condition_not_found_message conditionInput =
     ''Condition '' @ [CHR 0x22] @ conditionInput @ [CHR 0x22] @
     '' was not found. Please check the spelling.''"

definition medications_not_found_message :: "string list \<Rightarrow> string" where
  "medications_not_found_message not_found_drugs =
     ''The following medications were not found: '' @ join '', '' not_found_drugs"

text \<open>A validation step that fails: the error is shown and the run returns.\<close>

definition abort_with :: "string \<Rightarrow> index_page \<Rightarrow> index_page" where
  "abort_with message st = resetButton ((resetButton (showError message st))\<lparr>results := []\<rparr>)"

text \<open>The \<open>catch\<close> block, followed by \<open>finally\<close>.\<close>

definition connection_error :: "index_page \<Rightarrow> index_page" where
  "connection_error st =
     resetButton
       ((showError ''Unable to connect to the server. Please try again.'' st)\<lparr>results := []\<rparr>)"

text \<open>
  \<open>checkDrugInteraction()\<close>. \<open>drugInput\<close> and \<open>conditionInput\<close> are the constants of
  that name (the trimmed values of the two fields). The four replies are what the
  server answers to the four requests, in the order the function awaits them; a reply
  is read only if its request is made. The last reply carries \<open>response.status\<close> and
  the parsed body.
\<close>

definition checkDrugInteraction ::
  "string \<Rightarrow> string \<Rightarrow> string list option reply \<Rightarrow> string option list option reply
     \<Rightarrow> string list option reply \<Rightarrow> (nat \<times> interactions_bundle) reply \<Rightarrow> index_page \<Rightarrow> index_page" where
  "checkDrugInteraction drugInput conditionInput drugValidation conditionResponse
       medsValidation response st =
     (if drugInput = [] then showError ''Please enter the drug being prescribed'' st
      else if conditionInput = [] then showError ''Please enter the condition being treated'' st
      else if length (selectedMedications st) = 0
      then showError ''Please add at least one current medication'' st
      else
        let st1 = fetch (ValidateDrugs [drugInput])
                    (st\<lparr>checkBtnDisabled := True, btnLoading := True,
                        results := ''Analyzing interactions...''\<rparr>) in
        (case drugValidation of
          Threw \<Rightarrow> connection_error st1
        | Reply drugData \<Rightarrow>
            if has_not_found drugData
            then abort_with (drug_not_found_message drugInput) st1
            else
              let st2 = fetch (SearchConditions conditionInput) st1 in
              (case conditionResponse of
                Threw \<Rightarrow> connection_error st2
              | Reply conditionData \<Rightarrow>
                  if \<not> condition_found conditionData
                  then abort_with (condition_not_found_message conditionInput) st2
                  else
                    let st3 = fetch (ValidateDrugs (selectedMedications st2)) st2 in
                    (case medsValidation of
                      Threw \<Rightarrow> connection_error st3
                    | Reply medsData \<Rightarrow>
                        if has_not_found medsData
                        then abort_with (medications_not_found_message (the medsData)) st3
                        else
                          let st4 = fetch (CheckDrugInteractions (selectedMedications st3)
                                             drugInput) st3 in
                          (case response of
                            Threw \<Rightarrow> connection_error st4
                          | Reply (status, dat) \<Rightarrow>
                              if status = 401 then resetButton (logout st4)
                              else resetButton
                                     (st4\<lparr>interactionsData := Some dat,
                                          location := Some ''/interactions/''\<rparr>))))))"

text \<open>A validation reply passes when it is a body that reports no unknown drug.\<close>

definition validation_passed :: "string list option reply \<Rightarrow> bool" where
  "validation_passed r = (case r of Threw \<Rightarrow> False | Reply d \<Rightarrow> \<not> has_not_found d)"

definition condition_passed :: "string option list option reply \<Rightarrow> bool" where
  "condition_passed r = (case r of Threw \<Rightarrow> False | Reply d \<Rightarrow> condition_found d)"

section \<open>The results page (interactions)\<close>

text \<open>
  The page that shows the bundle of a check, in three lists of cards:
  \<open>src/unnamed/part_001\<close> (the script of \<open>interactions/\<close>).
\<close>

text \<open>
  What an awaited \<open>fetch('/translate_description', ...)\<close> yields: \<open>NoResponse\<close> when
  the fetch rejects, otherwise \<open>Response ok body\<close> with \<open>response.ok\<close> and the result of
  \<open>response.json()\<close>. The body of a successful response is reduced to its
  \<open>consumer_description\<close>, that of an error response to its \<open>error\<close> property.
\<close>

datatype translate_response = NoResponse | Response bool "string option reply"

text \<open>
  The translate functions take their success branch on a response that is \<open>ok\<close> and
  whose body can be read; every other response runs their failure branch.
\<close>

definition translation_succeeded :: "translate_response \<Rightarrow> bool" where
  "translation_succeeded resp = (case resp of Response True (Reply _) \<Rightarrow> True | _ \<Rightarrow> False)"

text \<open>
  A translate button of a card: its \<open>disabled\<close> property, its text (without the
  white space the template puts around it), and whether a
  \<open>setTimeout\<close> callback that will reset it is pending. The callback holds the button
  element itself, so it is part of the button: a list that is rendered again drops the
  old buttons together with their callbacks.
\<close>

record button =
  btn_disabled :: bool
  btn_label :: string
  btn_reset_pending :: bool

definition sparkles :: string where
  "sparkles = [CHR 0xE2, CHR 0x9C, CHR 0xA8]"

definition translate_label :: string where
  "translate_label = sparkles @ '' Translate to Patient-Friendly''"

definition new_button :: button where
  "new_button = \<lparr>btn_disabled = False, btn_label = translate_label, btn_reset_pending = False\<rparr>"

text \<open>
  A card of the document: the texts it displays, its translate button if the template
  rendered one, the \<open>AI Translated\<close> label, the class \<open>expanded\<close>, and the number of
  click listeners registered on its header.
\<close>

record card =
  card_type :: string
  card_index :: nat
  card_severity :: string
  card_name :: string
  card_hazard :: string
  card_plausibility :: string
  card_conditions :: string
  card_description :: string
  card_translate_btn :: "button option"
  card_ai_label :: bool
  card_expanded :: bool
  card_listeners :: nat

definition createInteractionCard :: "interaction \<Rightarrow> string \<Rightarrow> nat \<Rightarrow> card" where
  "createInteractionCard interaction ty index =
     (let severity = or_else (severity interaction) ''Unknown'';
          nm = or_else (js_or (js_or (drug interaction) (interaction_prop interaction))
                          (name_prop interaction)) ''Unknown Interaction'';
          professionalDesc = or_else (professional_description interaction)
                               ''No description available'';
          aiDesc = ai_description interaction;
          descriptionToShow = or_else aiDesc professionalDesc
      in \<lparr>card_type = ty, card_index = index, card_severity = severity, card_name = nm,
          card_hazard = [], card_plausibility = [], card_conditions = [],
          card_description = descriptionToShow,
          card_translate_btn =
            (if \<not> truthy aiDesc \<and> professionalDesc \<noteq> [] then Some new_button else None),
          card_ai_label = truthy aiDesc,
          card_expanded = True, card_listeners = 0\<rparr>)"

definition createFoodInteractionCard :: "interaction \<Rightarrow> nat \<Rightarrow> card" where
  "createFoodInteractionCard interaction index =
     (let severity = or_else (severity interaction) ''Unknown'';
          nm = or_else (interaction_name interaction) ''Food/Lifestyle Interaction'';
          hazard = or_else (hazard_level interaction) [];
          plaus = or_else (plausibility interaction) [];
          professionalDesc = or_else (professional_description interaction)
                               ''No description available'';
          aiDesc = ai_description interaction;
          descriptionToShow = or_else aiDesc professionalDesc
      in \<lparr>card_type = ''food'', card_index = index, card_severity = severity, card_name = nm,
          card_hazard = hazard, card_plausibility = plaus, card_conditions = [],
          card_description = descriptionToShow,
          card_translate_btn =
            (if \<not> truthy aiDesc \<and> professionalDesc \<noteq> [] then Some new_button else None),
          card_ai_label = False,
          card_expanded = True, card_listeners = 0\<rparr>)"

definition createDiseaseInteractionCard :: "interaction \<Rightarrow> nat \<Rightarrow> card" where
  "createDiseaseInteractionCard interaction index =
     (let severity = or_else (severity interaction) ''Unknown'';
          nm = or_else (disease_name interaction) ''Disease Interaction'';
          hazard = or_else (hazard_level interaction) [];
          plaus = or_else (plausibility interaction) [];
          conditions = or_else (applicable_conditions interaction) [];
          professionalDesc = or_else (professional_description interaction)
                               ''No description available'';
          aiDesc = ai_description interaction;
          descriptionToShow = or_else aiDesc professionalDesc
      in \<lparr>card_type = ''disease'', card_index = index, card_severity = severity,
          card_name = nm,
          card_hazard = hazard, card_plausibility = plaus, card_conditions = conditions,
          card_description = descriptionToShow,
          card_translate_btn =
            (if \<not> truthy aiDesc \<and> professionalDesc \<noteq> [] then Some new_button else None),
          card_ai_label = False,
          card_expanded = True, card_listeners = 0\<rparr>)"

text \<open>The content of a list container: the empty-state paragraph, or the cards.\<close>

datatype container = EmptyState string | Cards "card list"

fun cards_of :: "container \<Rightarrow> card list" where
  "cards_of (EmptyState _) = []"
| "cards_of (Cards cs) = cs"

fun map_cards :: "(card \<Rightarrow> card) \<Rightarrow> container \<Rightarrow> container" where
  "map_cards f (EmptyState m) = EmptyState m"
| "map_cards f (Cards cs) = Cards (map f cs)"

fun update_card :: "nat \<Rightarrow> (card \<Rightarrow> card) \<Rightarrow> container \<Rightarrow> container" where
  "update_card i f (EmptyState m) = EmptyState m"
| "update_card i f (Cards cs) = (if i < length cs then Cards (cs[i := f (cs ! i)]) else Cards cs)"

datatype list_kind = DrugDrug | Food | Disease

text \<open>
  The state of the page: its globals, the three list containers of the document, the
  page-level error that \<open>showError\<close> writes, and the request log.
\<close>

record interactions_page = net +
  drugDrugInteractions :: "interaction list"
  foodInteractions :: "interaction list"
  diseaseInteractions :: "interaction list"
  prescribedDrug :: string
  currentMedications :: "string list"
  drugInfo :: string
  drugDrugList :: container
  foodList :: container
  diseaseList :: container
  drugDrugCount :: nat
  foodCount :: nat
  diseaseCount :: nat
  pageError :: "string option"

definition get_list :: "list_kind \<Rightarrow> interactions_page \<Rightarrow> container" where
  "get_list kind st =
     (case kind of DrugDrug \<Rightarrow> drugDrugList st | Food \<Rightarrow> foodList st
      | Disease \<Rightarrow> diseaseList st)"

definition set_list :: "list_kind \<Rightarrow> container \<Rightarrow> interactions_page \<Rightarrow> interactions_page" where
  "set_list kind v st =
     (case kind of DrugDrug \<Rightarrow> st\<lparr>drugDrugList := v\<rparr> | Food \<Rightarrow> st\<lparr>foodList := v\<rparr>
      | Disease \<Rightarrow> st\<lparr>diseaseList := v\<rparr>)"

text \<open>
  \<open>setupCardListeners()\<close>: \<open>document.querySelectorAll('.interaction-header')\<close> selects
  the header of every card in the document, in all three lists, and each gets one more
  click listener.
\<close>

definition add_listener :: "card \<Rightarrow> card" where
  "add_listener c = c\<lparr>card_listeners := Suc (card_listeners c)\<rparr>"

definition setupCardListeners :: "interactions_page \<Rightarrow> interactions_page" where
  "setupCardListeners st =
     st\<lparr>drugDrugList := map_cards add_listener (drugDrugList st),
        foodList := map_cards add_listener (foodList st),
        diseaseList := map_cards add_listener (diseaseList st)\<rparr>"

text \<open>
  A click on the header of a card runs every listener registered on it, and each
  toggles the class \<open>expanded\<close>.
\<close>

definition toggle_expanded :: "card \<Rightarrow> card" where
  "toggle_expanded c = c\<lparr>card_expanded := \<not> card_expanded c\<rparr>"

definition header_clicked :: "card \<Rightarrow> card" where
  "header_clicked c = (toggle_expanded ^^ card_listeners c) c"

definition click_header :: "list_kind \<Rightarrow> nat \<Rightarrow> interactions_page \<Rightarrow> interactions_page" where
  "click_header kind i st = set_list kind (update_card i header_clicked (get_list kind st)) st"

definition check_mark :: string where
  "check_mark = [CHR 0xE2, CHR 0x9C, CHR 0x85]"

definition renderDrugDrugInteractions :: "interactions_page \<Rightarrow> interactions_page" where
  "renderDrugDrugInteractions st =
     (if length (drugDrugInteractions st) = 0
      then
        let drugsList = (if length (currentMedications st) > 0
                         then join '' and '' (currentMedications st) else prescribedDrug st)
        in st\<lparr>drugDrugList :=
                EmptyState (check_mark @ '' No drug-drug interactions found for '' @
                            drugsList @ ''.'')\<rparr>
      else
        setupCardListeners
          (st\<lparr>drugDrugList :=
                Cards (map (\<lambda>(index, interaction). createInteractionCard interaction ''drug'' index)
                         (enumerate 0 (drugDrugInteractions st)))\<rparr>))"

definition renderFoodInteractions :: "interactions_page \<Rightarrow> interactions_page" where
  "renderFoodInteractions st =
     (if length (foodInteractions st) = 0
      then st\<lparr>foodList :=
                EmptyState (''No food/lifestyle interactions found for '' @
                            prescribedDrug st @ ''.'')\<rparr>
      else
        setupCardListeners
          (st\<lparr>foodList :=
                Cards (map (\<lambda>(index, interaction). createFoodInteractionCard interaction index)
                         (enumerate 0 (foodInteractions st)))\<rparr>))"

definition renderDiseaseInteractions :: "interactions_page \<Rightarrow> interactions_page" where
  "renderDiseaseInteractions st =
     (if length (diseaseInteractions st) = 0
      then st\<lparr>diseaseList :=
                EmptyState (''No disease/health condition interactions found for '' @
                            prescribedDrug st @ ''.'')\<rparr>
      else
        setupCardListeners
          (st\<lparr>diseaseList :=
                Cards (map (\<lambda>(index, interaction). createDiseaseInteractionCard interaction index)
                         (enumerate 0 (diseaseInteractions st)))\<rparr>))"

definition updateCounts :: "interactions_page \<Rightarrow> interactions_page" where
  "updateCounts st =
     st\<lparr>drugDrugCount := length (drugDrugInteractions st),
        foodCount := length (foodInteractions st),
        diseaseCount := length (diseaseInteractions st)\<rparr>"

text \<open>\<open>x || []\<close> on a possibly absent array.\<close>

definition or_empty :: "'a list option \<Rightarrow> 'a list" where
  "or_empty v = (case v of None \<Rightarrow> [] | Some l \<Rightarrow> l)"

text \<open>
  \<open>loadInteractionsData()\<close>. The argument is the entry \<open>interactionsData\<close> of
  \<open>localStorage\<close>: \<open>None\<close> when there is none, \<open>Some Threw\<close> when \<open>JSON.parse\<close> throws
  on it or yields no object, \<open>Some (Reply parsed)\<close> otherwise. \<open>showError\<close> of this page
  is the field \<open>pageError\<close>.
\<close>

definition loadInteractionsData ::
  "interactions_bundle reply option \<Rightarrow> interactions_page \<Rightarrow> interactions_page" where
  "loadInteractionsData stored st =
     (case stored of
        None \<Rightarrow> st\<lparr>pageError := Some ''No interaction data found. Please go back and search again.''\<rparr>
      | Some Threw \<Rightarrow> st\<lparr>pageError := Some ''Error loading interaction data.''\<rparr>
      | Some (Reply parsed) \<Rightarrow>
          let st1 = st\<lparr>drugDrugInteractions := or_empty (interactions parsed),
                        foodInteractions := or_empty (food_interactions parsed),
                        diseaseInteractions := or_empty (disease_interactions parsed)\<rparr>;
              st2 = (if length (or_empty (drugs parsed)) > 0
                     then st1\<lparr>prescribedDrug := join '', '' (or_empty (drugs parsed)),
                              currentMedications := or_empty (drugs parsed)\<rparr>
                     else st1\<lparr>prescribedDrug := or_else (prescribed_drug parsed)
                                                  ''the selected medication'',
                              currentMedications := or_empty (current_medications parsed)\<rparr>);
              st3 = (if length (currentMedications st2) > 1
                     then st2\<lparr>drugInfo := ''Interactions between: '' @
                                            join '', '' (currentMedications st2)\<rparr>
                     else if length (currentMedications st2) = 1
                     then st2\<lparr>drugInfo := ''Interactions for: '' @ hd (currentMedications st2)\<rparr>
                     else st2\<lparr>drugInfo := ''Interactions for: '' @ prescribedDrug st2\<rparr>)
          in updateCounts
               (renderDiseaseInteractions
                  (renderFoodInteractions (renderDrugDrugInteractions st3))))"

text \<open>The button of the card at a position of a list, if the card has one.\<close>

definition button_at :: "list_kind \<Rightarrow> nat \<Rightarrow> interactions_page \<Rightarrow> button option" where
  "button_at kind p st =
     (let cs = cards_of (get_list kind st)
      in if p < length cs then card_translate_btn (cs ! p) else None)"

definition update_button ::
  "list_kind \<Rightarrow> nat \<Rightarrow> (button \<Rightarrow> button) \<Rightarrow> interactions_page \<Rightarrow> interactions_page" where
  "update_button kind p f st =
     set_list kind
       (update_card p (\<lambda>c. c\<lparr>card_translate_btn := map_option f (card_translate_btn c)\<rparr>)
          (get_list kind st)) st"

definition expand_card :: "list_kind \<Rightarrow> nat \<Rightarrow> interactions_page \<Rightarrow> interactions_page" where
  "expand_card kind i st =
     set_list kind (update_card i (\<lambda>c. c\<lparr>card_expanded := True\<rparr>) (get_list kind st)) st"

text \<open>
  The failure path of the three translate functions (the \<open>else\<close> branch and the
  \<open>catch\<close> block do the same): the button shows \<open>Translation failed\<close> and a timeout is set.
\<close>

definition translation_failed :: "list_kind \<Rightarrow> nat \<Rightarrow> interactions_page \<Rightarrow> interactions_page" where
  "translation_failed kind p st =
     update_button kind p (\<lambda>b. b\<lparr>btn_label := ''Translation failed'', btn_reset_pending := True\<rparr>) st"

text \<open>The timeout callback, 2000 ms later: it re-enables the button it holds.\<close>

definition reset_timeout :: "list_kind \<Rightarrow> nat \<Rightarrow> interactions_page \<Rightarrow> interactions_page" where
  "reset_timeout kind p st =
     update_button kind p
       (\<lambda>b. if btn_reset_pending b
            then b\<lparr>btn_disabled := False, btn_label := translate_label,
                   btn_reset_pending := False\<rparr>
            else b) st"

definition start_translating :: "list_kind \<Rightarrow> nat \<Rightarrow> interactions_page \<Rightarrow> interactions_page" where
  "start_translating kind p st =
     update_button kind p (\<lambda>b. b\<lparr>btn_disabled := True, btn_label := ''Translating...''\<rparr>) st"

text \<open>
  \<open>translateDescription(index, type, event)\<close>, called from the button of the card at
  position \<open>p\<close> of the drug list (\<open>event.target\<close>); \<open>resp\<close> is what the server answers.
  Reading a property of \<open>drugDrugInteractions[index]\<close> when there is no such element
  throws inside the \<open>try\<close>, before the request is made.
\<close>

definition translateDescription ::
  "nat \<Rightarrow> nat \<Rightarrow> translate_response \<Rightarrow> interactions_page \<Rightarrow> interactions_page" where
  "translateDescription index p resp st =
     (let st1 = start_translating DrugDrug p st in
      if index < length (drugDrugInteractions st1) then
        let interaction = drugDrugInteractions st1 ! index;
            st2 = fetch (TranslateDescription (professional_description interaction)
                           (interaction_id interaction)) st1
        in (case resp of
              Response True (Reply consumer_description) \<Rightarrow>
                let st3 = st2\<lparr>drugDrugInteractions :=
                               (drugDrugInteractions st2)
                                 [index := interaction\<lparr>ai_description := consumer_description,
                                     patient_description := consumer_description\<rparr>]\<rparr>
                in expand_card DrugDrug index (renderDrugDrugInteractions st3)
            | _ \<Rightarrow> translation_failed DrugDrug p st2)
      else translation_failed DrugDrug p st1)"

definition translateFoodDescription ::
  "nat \<Rightarrow> nat \<Rightarrow> translate_response \<Rightarrow> interactions_page \<Rightarrow> interactions_page" where
  "translateFoodDescription index p resp st =
     (let st1 = start_translating Food p st in
      if index < length (foodInteractions st1) then
        let interaction = foodInteractions st1 ! index;
            st2 = fetch (TranslateDescription (professional_description interaction) None) st1
        in (case resp of
              Response True (Reply consumer_description) \<Rightarrow>
                let st3 = st2\<lparr>foodInteractions :=
                               (foodInteractions st2)
                                 [index := interaction\<lparr>ai_description := consumer_description\<rparr>]\<rparr>
                in expand_card Food index (renderFoodInteractions st3)
            | _ \<Rightarrow> translation_failed Food p st2)
      else translation_failed Food p st1)"

definition translateDiseaseDescription ::
  "nat \<Rightarrow> nat \<Rightarrow> translate_response \<Rightarrow> interactions_page \<Rightarrow> interactions_page" where
  "translateDiseaseDescription index p resp st =
     (let st1 = start_translating Disease p st in
      if index < length (diseaseInteractions st1) then
        let interaction = diseaseInteractions st1 ! index;
            st2 = fetch (TranslateDescription (professional_description interaction) None) st1
        in (case resp of
              Response True (Reply consumer_description) \<Rightarrow>
                let st3 = st2\<lparr>diseaseInteractions :=
                               (diseaseInteractions st2)
                                 [index := interaction\<lparr>ai_description := consumer_description\<rparr>]\<rparr>
                in expand_card Disease index (renderDiseaseInteractions st3)
            | _ \<Rightarrow> translation_failed Disease p st2)
      else translation_failed Disease p st1)"

text \<open>
  A click on the translate button of the card at position \<open>p\<close> of a list. There is
  something to click only if the card has a button, and a disabled button fires no
  click event. The \<open>onclick\<close> attribute the template wrote calls the translate function
  of the list with the index the card was created with.
\<close>

definition click_translate ::
  "list_kind \<Rightarrow> nat \<Rightarrow> translate_response \<Rightarrow> interactions_page \<Rightarrow> interactions_page" where
  "click_translate kind p resp st =
     (case button_at kind p st of
        None \<Rightarrow> st
      | Some b \<Rightarrow>
          if btn_disabled b then st
          else
            let index = card_index (cards_of (get_list kind st) ! p)
            in (case kind of
                  DrugDrug \<Rightarrow> translateDescription index p resp st
                | Food \<Rightarrow> translateFoodDescription index p resp st
                | Disease \<Rightarrow> translateDiseaseDescription index p resp st))"

section \<open>The details page (descriptions)\<close>

text \<open>
  The page that shows one interaction in detail: \<open>src/unnamed/part_000\<close> (the script
  of \<open>descriptions/\<close>).
\<close>

text \<open>
  The translate button of the details page is an element of the page's HTML: its
  \<open>disabled\<close> property, its text and whether it is displayed.
\<close>

record details_button =
  tb_disabled :: bool
  tb_label :: string
  tb_displayed :: bool

definition generate_label :: string where
  "generate_label = sparkles @ '' Generate Patient-Friendly Version''"

text \<open>
  The state of the page: the global \<open>currentInteraction\<close>, the entry
  \<open>selectedInteraction\<close> of \<open>localStorage\<close>, the parts of the document the functions
  write (the sections of the details card as pairs of label and text, none standing
  for the paragraph \<open>No additional details available.\<close>), the messages shown with
  \<open>alert\<close>, the page-level error, and the request log.
\<close>

record details_page = net +
  currentInteraction :: "interaction option"
  selectedInteraction :: "interaction option"
  interactionTitle :: string
  severityIndicator :: string
  detailsCard :: "(string \<times> string) list"
  aiSectionShown :: bool
  aiContent :: string
  translateBtn :: details_button
  alerts :: "string list"
  detailsError :: "string option"

definition showAIDescription :: "string option \<Rightarrow> details_page \<Rightarrow> details_page" where
  "showAIDescription description st =
     st\<lparr>aiContent := (case description of None \<Rightarrow> [] | Some s \<Rightarrow> s),
        aiSectionShown := True,
        translateBtn := (translateBtn st)\<lparr>tb_displayed := False\<rparr>\<rparr>"

definition detail_sections :: "interaction \<Rightarrow> (string \<times> string) list" where
  "detail_sections ci =
     (if truthy (hazard_level ci) \<or> truthy (plausibility ci)
      then [(''Risk Assessment'',
             (if truthy (hazard_level ci) then ''Hazard: '' @ the (hazard_level ci) @ [CHR 0x0A]
              else []) @
             (if truthy (plausibility ci) then ''Plausibility: '' @ the (plausibility ci)
              else []))]
      else []) @
     (if truthy (applicable_conditions ci)
      then [(''Applicable Conditions'', the (applicable_conditions ci))] else []) @
     (if truthy (professional_description ci)
      then [(''Professional Description'', the (professional_description ci))] else []) @
     (if truthy (patient_description ci) \<and>
         patient_description ci \<noteq> professional_description ci
      then [(''Patient Description'', the (patient_description ci))] else [])"

text \<open>
  \<open>renderDetails()\<close>. With no current interaction the first property read throws and
  nothing is written.
\<close>

definition renderDetails :: "details_page \<Rightarrow> details_page" where
  "renderDetails st =
     (case currentInteraction st of
        None \<Rightarrow> st
      | Some ci \<Rightarrow>
          let severity = or_else (severity ci) ''Unknown'';
              nm = or_else (js_or (js_or (js_or (drug ci) (interaction_name ci))
                              (disease_name ci)) (name_prop ci)) ''Interaction'';
              st1 = st\<lparr>interactionTitle := nm,
                        severityIndicator := severity @ '' Severity'',
                        detailsCard := detail_sections ci\<rparr>
          in if truthy (ai_description ci) then showAIDescription (ai_description ci) st1
             else st1)"

text \<open>
  \<open>loadInteractionDetails()\<close>; the argument is the entry \<open>selectedInteraction\<close> of
  \<open>localStorage\<close>, read as for the results page.
\<close>

definition loadInteractionDetails ::
  "interaction option reply option \<Rightarrow> details_page \<Rightarrow> details_page" where
  "loadInteractionDetails stored st =
     (case stored of
        None \<Rightarrow>
          st\<lparr>detailsError :=
               Some ''No interaction selected. Please go back and select an interaction.''\<rparr>
      | Some Threw \<Rightarrow> st\<lparr>detailsError := Some ''Error loading interaction details.''\<rparr>
      | Some (Reply None) \<Rightarrow>
          st\<lparr>currentInteraction := None,
             detailsError := Some ''Error loading interaction details.''\<rparr>
      | Some (Reply (Some ci)) \<Rightarrow> renderDetails (st\<lparr>currentInteraction := Some ci\<rparr>))"

text \<open>The \<open>catch\<close> block of \<open>requestTranslation\<close>.\<close>

definition translation_unreachable :: "details_page \<Rightarrow> details_page" where
  "translation_unreachable st =
     st\<lparr>alerts := alerts st @
                  [''Unable to connect to translation service. Please try again later.''],
        translateBtn := (translateBtn st)\<lparr>tb_disabled := False, tb_label := generate_label\<rparr>\<rparr>"

definition requestTranslation :: "translate_response \<Rightarrow> details_page \<Rightarrow> details_page" where
  "requestTranslation resp st =
     (case currentInteraction st of
        None \<Rightarrow> st
      | Some ci \<Rightarrow>
          if \<not> truthy (professional_description ci) then st
          else
            let st1 = st\<lparr>translateBtn :=
                           (translateBtn st)\<lparr>tb_disabled := True, tb_label := ''Translating...''\<rparr>\<rparr>;
                st2 = fetch (TranslateDescription (professional_description ci)
                               (interaction_id ci)) st1
            in (case resp of
                  NoResponse \<Rightarrow> translation_unreachable st2
                | Response True Threw \<Rightarrow> translation_unreachable st2
                | Response True (Reply consumer_description) \<Rightarrow>
                    let ci' = ci\<lparr>ai_description := consumer_description\<rparr>;
                        st3 = showAIDescription consumer_description
                                (st2\<lparr>currentInteraction := Some ci',
                                     selectedInteraction := Some ci'\<rparr>)
                    in st3\<lparr>translateBtn := (translateBtn st3)\<lparr>tb_displayed := False\<rparr>\<rparr>
                | Response False Threw \<Rightarrow> translation_unreachable st2
                | Response False (Reply err) \<Rightarrow>
                    st2\<lparr>alerts := alerts st2 @
                                   [or_else err ''Translation failed. Please try again.''],
                        translateBtn :=
                          (translateBtn st2)\<lparr>tb_disabled := False, tb_label := generate_label\<rparr>\<rparr>))"

text \<open>
  A click on the translate button: there is something to click only while the button
  is displayed, and a disabled button fires no click event.
\<close>

definition click_translateBtn :: "translate_response \<Rightarrow> details_page \<Rightarrow> details_page" where
  "click_translateBtn resp st =
     (if tb_displayed (translateBtn st) \<and> \<not> tb_disabled (translateBtn st)
      then requestTranslation resp st else st)"

section \<open>The dashboard (food and disease checkers)\<close>

text \<open>
  A card of the dashboard's result lists, as the templates of \<open>renderFoodResults\<close> and
  \<open>renderDiseaseResults\<close> write it (\<open>src/login/index.js\<close>). These cards have no header
  to collapse them.
\<close>

record result_card =
  rc_severity :: string
  rc_name :: string
  rc_hazard :: string
  rc_plausibility :: string
  rc_conditions :: string
  rc_description :: string
  rc_translate_btn :: "button option"
  rc_ai_label :: bool

definition foodResultCard :: "interaction \<Rightarrow> result_card" where
  "foodResultCard interaction =
     \<lparr>rc_severity = or_else (severity interaction) ''Unknown'',
      rc_name = or_else (interaction_name interaction) ''Food/Lifestyle Interaction'',
      rc_hazard = or_else (hazard_level interaction) [],
      rc_plausibility = or_else (plausibility interaction) [],
      rc_conditions = [],
      rc_description =
        or_else (js_or (ai_description interaction) (professional_description interaction))
          ''No description available'',
      rc_translate_btn =
        (if \<not> truthy (ai_description interaction) \<and>
            truthy (professional_description interaction)
         then Some new_button else None),
      rc_ai_label = truthy (ai_description interaction)\<rparr>"

definition diseaseResultCard :: "interaction \<Rightarrow> result_card" where
  "diseaseResultCard interaction =
     \<lparr>rc_severity = or_else (severity interaction) ''Unknown'',
      rc_name = or_else (disease_name interaction) ''Disease Interaction'',
      rc_hazard = or_else (hazard_level interaction) [],
      rc_plausibility = or_else (plausibility interaction) [],
      rc_conditions = or_else (applicable_conditions interaction) [],
      rc_description =
        or_else (js_or (ai_description interaction) (professional_description interaction))
          ''No description available'',
      rc_translate_btn =
        (if \<not> truthy (ai_description interaction) \<and>
            truthy (professional_description interaction)
         then Some new_button else None),
      rc_ai_label = truthy (ai_description interaction)\<rparr>"

section \<open>Merging the drug-drug interactions of several drugs\<close>

text \<open>The schema is that of \<open>src/clear_database.sql\<close>.\<close>

text \<open>
  A row of the junction table \<open>Drug_Interaction\<close> of the schema, whose primary key is
  \<open>(drug_id, interaction_id)\<close>: the interaction \<open>di_interaction\<close> is listed under the
  drug \<open>di_drug\<close>, naming \<open>di_counterpart\<close> as the interacting drug.
\<close>

record drug_interaction =
  di_drug :: nat
  di_interaction :: nat
  di_counterpart :: "string option"

text \<open>
  Modelled from the spec: the server's interaction repository (the server, \<open>api.py\<close>,
  is not among the sources). \<open>interactionsFor\<close> returns the drug-drug interactions of
  one drug: the rows of the junction table listed under it.
\<close>

definition interactionsFor :: "drug_interaction list \<Rightarrow> nat \<Rightarrow> drug_interaction list" where
  "interactionsFor table d = filter (\<lambda>r. di_drug r = d) table"

text \<open>
  Modelled from the spec: step 4 of the server's aggregate check. The interactions are
  fetched for every checked drug, the drugs deduplicated, drug by drug.
\<close>

definition fetched_rows :: "drug_interaction list \<Rightarrow> nat list \<Rightarrow> drug_interaction list" where
  "fetched_rows table ds = concat (map (interactionsFor table) (remdups ds))"

text \<open>
  Modelled from the spec: the merge step of the server's aggregate check. Drug-drug
  interactions are deduplicated by interaction identity: a row is added to the rows
  listed so far unless its interaction is already listed there (under another drug).
\<close>

fun merge_interactions :: "drug_interaction list \<Rightarrow> drug_interaction list \<Rightarrow> drug_interaction list" where
  "merge_interactions listed [] = listed"
| "merge_interactions listed (r # rs) =
     (if di_interaction r \<in> set (map di_interaction listed)
      then merge_interactions listed rs
      else merge_interactions (listed @ [r]) rs)"

text \<open>
  Modelled from the spec: the drug-drug part of the bundle the aggregate check returns
  for the drugs \<open>ds\<close>.
\<close>

definition merged_interactions :: "drug_interaction list \<Rightarrow> nat list \<Rightarrow> drug_interaction list" where
  "merged_interactions table ds = merge_interactions [] (fetched_rows table ds)"

text \<open>The entries of a merged list that carry a given interaction.\<close>

definition entries_for :: "nat \<Rightarrow> drug_interaction list \<Rightarrow> drug_interaction list" where
  "entries_for i rs = filter (\<lambda>r. di_interaction r = i) rs"

section \<open>The translation cache\<close>

text \<open>
  Modelled from the spec: the errors of the translation cache (the server, \<open>api.py\<close>,
  is not among the sources). \<open>TRANSLATION_FAILED\<close> is a failure of the external
  paraphraser, \<open>VALIDATION_FAILED\<close> a malformed request.
\<close>

datatype translate_error = TRANSLATION_FAILED | VALIDATION_FAILED

text \<open>
  Modelled from the spec: the state of the translation cache. It holds the AI
  description that each interaction record carries, by record identifier, and, to count
  them, the inputs of the calls of the external paraphraser made so far.
\<close>

record translation_cache =
  stored_ai_description :: "nat \<Rightarrow> string option"
  paraphraser_calls :: "string list"

text \<open>
  Modelled from the spec: \<open>translate(recordId, professionalText)\<close> of the translation
  cache. Lookup: a record that carries a non-empty AI description gets it back at once,
  with no external call. Miss: the paraphraser is called with the professional text (an
  empty text is rejected before the call); on success the text it returns is stored on
  the record and returned; on failure the result is \<open>TRANSLATION_FAILED\<close> and the record
  is left without an AI description. The paraphraser is the argument \<open>paraphrase\<close>,
  \<open>None\<close> being its failure or timeout.
\<close>

definition translate ::
  "(string \<Rightarrow> string option) \<Rightarrow> nat \<Rightarrow> string \<Rightarrow> translation_cache
     \<Rightarrow> (translate_error + string) \<times> translation_cache" where
  "translate paraphrase recordId professionalText st =
     (if truthy (stored_ai_description st recordId)
      then (Inr (the (stored_ai_description st recordId)), st)
      else if professionalText = [] then (Inl VALIDATION_FAILED, st)
      else
        let st1 = st\<lparr>paraphraser_calls := paraphraser_calls st @ [professionalText]\<rparr> in
        (case paraphrase professionalText of
           None \<Rightarrow> (Inl TRANSLATION_FAILED, st1)
         | Some patientText \<Rightarrow>
             (Inr patientText,
              st1\<lparr>stored_ai_description :=
                     (stored_ai_description st1)(recordId := Some patientText)\<rparr>)))"

text \<open>
  Modelled from the spec: the translation of a record with no backing identifier, which
  the server does not cache.
\<close>

definition translate_uncached ::
  "(string \<Rightarrow> string option) \<Rightarrow> string \<Rightarrow> translation_cache
     \<Rightarrow> (translate_error + string) \<times> translation_cache" where
  "translate_uncached paraphrase professionalText st =
     (if professionalText = [] then (Inl VALIDATION_FAILED, st)
      else
        let st1 = st\<lparr>paraphraser_calls := paraphraser_calls st @ [professionalText]\<rparr> in
        (case paraphrase professionalText of
           None \<Rightarrow> (Inl TRANSLATION_FAILED, st1)
         | Some patientText \<Rightarrow> (Inr patientText, st1)))"

text \<open>
  Modelled from the spec: the handler of
  \<open>POST /translate_description {professional_description, interaction_id?}\<close>, which
  answers \<open>{consumer_description}\<close>. The \<open>interaction_id\<close> names the record. The spec
  does not describe the body of an error response; it is taken to have no \<open>error\<close>
  property.
\<close>

definition translate_description ::
  "(string \<Rightarrow> string option) \<Rightarrow> string option \<Rightarrow> nat option \<Rightarrow> translation_cache
     \<Rightarrow> translate_response \<times> translation_cache" where
  "translate_description paraphrase professionalDescription interactionId st =
     (let professionalText = (case professionalDescription of None \<Rightarrow> [] | Some s \<Rightarrow> s);
          outcome = (case interactionId of
                       Some recordId \<Rightarrow> translate paraphrase recordId professionalText st
                     | None \<Rightarrow> translate_uncached paraphrase professionalText st)
      in (case fst outcome of
            Inr patientText \<Rightarrow> (Response True (Reply (Some patientText)), snd outcome)
          | Inl _ \<Rightarrow> (Response False (Reply None), snd outcome)))"

section \<open>Example states\<close>

text \<open>
  The search page as it is loaded: the globals as \<open>index.js\<close> initialises them, a
  signed-in user, and a document that no function has written yet.
\<close>

definition fresh_index_page :: index_page where
  "fresh_index_page =
     \<lparr>network = [], selectedMedications = [], errorMessage = None, selectedTags = [],
      medCount = 0, medicationSearchInput = [], medicationInputDisabled = False,
      medicationInputPlaceholder = ''Search and add medications...'',
      drugAutocomplete = \<lparr>dd_show = False, dd_items = []\<rparr>,
      conditionAutocomplete = \<lparr>dd_show = False, dd_items = []\<rparr>,
      medicationAutocomplete = \<lparr>dd_show = False, dd_items = []\<rparr>,
      checkBtnDisabled = False, btnLoading = False, results = [],
      pharmacheck_token = Some ''token'', pharmacheck_user = Some ''user'',
      interactionsData = None, location = None\<rparr>"

text \<open>The results page before \<open>loadInteractionsData\<close> runs.\<close>

definition fresh_interactions_page :: interactions_page where
  "fresh_interactions_page =
     \<lparr>network = [], drugDrugInteractions = [], foodInteractions = [],
      diseaseInteractions = [], prescribedDrug = [], currentMedications = [],
      drugInfo = [], drugDrugList = Cards [], foodList = Cards [], diseaseList = Cards [],
      drugDrugCount = 0, foodCount = 0, diseaseCount = 0, pageError = None\<rparr>"

text \<open>The details page before \<open>loadInteractionDetails\<close> runs.\<close>

definition fresh_details_page :: details_page where
  "fresh_details_page =
     \<lparr>network = [], currentInteraction = None, selectedInteraction = None,
      interactionTitle = [], severityIndicator = [], detailsCard = [],
      aiSectionShown = False, aiContent = [],
      translateBtn = \<lparr>tb_disabled = False, tb_label = generate_label, tb_displayed = True\<rparr>,
      alerts = [], detailsError = None\<rparr>"

text \<open>An interaction object with no property set.\<close>

definition empty_interaction :: interaction where
  "empty_interaction =
     \<lparr>severity = None, drug = None, interaction_prop = None, name_prop = None,
      interaction_name = None, disease_name = None, hazard_level = None,
      plausibility = None, applicable_conditions = None, professional_description = None,
      patient_description = None, ai_description = None, interaction_id = None\<rparr>"

definition empty_bundle :: interactions_bundle where
  "empty_bundle =
     \<lparr>interactions = None, food_interactions = None, disease_interactions = None,
      drugs = None, prescribed_drug = None, current_medications = None\<rparr>"

definition five_medications :: "string list" where
  "five_medications = [''Aspirin'', ''Warfarin'', ''Ibuprofen'', ''Metformin'', ''Lisinopril'']"

text \<open>
  A junction table in which drug 1 and drug 2 share the interaction 7, each row naming
  the other drug as the counterpart, and drug 2 has the interaction 8 with a third drug.
\<close>

definition example_table :: "drug_interaction list" where
  "example_table =
     [\<lparr>di_drug = 1, di_interaction = 7, di_counterpart = Some ''Warfarin''\<rparr>,
      \<lparr>di_drug = 2, di_interaction = 7, di_counterpart = Some ''Aspirin''\<rparr>,
      \<lparr>di_drug = 2, di_interaction = 8, di_counterpart = Some ''Ibuprofen''\<rparr>]"

text \<open>The search page with one current medication selected.\<close>

definition warfarin_page :: index_page where
  "warfarin_page = fresh_index_page\<lparr>selectedMedications := [''Warfarin'']\<rparr>"

text \<open>A drug-drug interaction whose professional description is the empty string.\<close>

definition undescribed_interaction :: interaction where
  "undescribed_interaction =
     empty_interaction\<lparr>severity := Some ''Major'', drug := Some ''Warfarin'',
       professional_description := Some [], interaction_id := Some 7\<rparr>"

text \<open>The results page loaded with that interaction alone.\<close>

definition undescribed_page :: interactions_page where
  "undescribed_page =
     loadInteractionsData
       (Some (Reply (empty_bundle\<lparr>interactions := Some [undescribed_interaction],
                       drugs := Some [''Aspirin'', ''Warfarin'']\<rparr>)))
       fresh_interactions_page"

text \<open>Two drug-drug interactions with professional descriptions and no AI description.\<close>

definition warfarin_interaction :: interaction where
  "warfarin_interaction =
     empty_interaction\<lparr>severity := Some ''Major'', drug := Some ''Warfarin'',
       professional_description := Some ''Concomitant use may potentiate bleeding.'',
       interaction_id := Some 7\<rparr>"

definition ibuprofen_interaction :: interaction where
  "ibuprofen_interaction =
     empty_interaction\<lparr>severity := Some ''Moderate'', drug := Some ''Ibuprofen'',
       professional_description := Some ''May attenuate the antiplatelet effect.'',
       interaction_id := Some 8\<rparr>"

text \<open>The results page loaded with these two, and then with the second card collapsed.\<close>

definition two_cards_page :: interactions_page where
  "two_cards_page =
     loadInteractionsData
       (Some (Reply (empty_bundle\<lparr>interactions :=
                         Some [warfarin_interaction, ibuprofen_interaction],
                       drugs := Some [''Aspirin'', ''Warfarin'', ''Ibuprofen'']\<rparr>)))
       fresh_interactions_page"

definition second_collapsed_page :: interactions_page where
  "second_collapsed_page = click_header DrugDrug 1 two_cards_page"

text \<open>The details page loaded with the first of them.\<close>

definition warfarin_details_page :: details_page where
  "warfarin_details_page =
     loadInteractionDetails (Some (Reply (Some warfarin_interaction))) fresh_details_page"

text \<open>An interaction that carries an AI description, and a results page that holds it
  in each of its three lists.\<close>

definition translated_interaction :: interaction where
  "translated_interaction =
     warfarin_interaction\<lparr>ai_description := Some ''Taking both can cause bleeding.''\<rparr>"

definition translated_page :: interactions_page where
  "translated_page =
     fresh_interactions_page\<lparr>drugDrugInteractions := [translated_interaction],
       foodInteractions := [translated_interaction],
       diseaseInteractions := [translated_interaction]\<rparr>"

text \<open>A results page with untranslated interactions in all three lists.\<close>

definition three_lists_page :: interactions_page where
  "three_lists_page =
     loadInteractionsData
       (Some (Reply (empty_bundle\<lparr>interactions :=
                         Some [warfarin_interaction, ibuprofen_interaction],
                       food_interactions := Some [warfarin_interaction],
                       disease_interactions := Some [ibuprofen_interaction],
                       drugs := Some [''Aspirin'', ''Warfarin'', ''Ibuprofen'']\<rparr>)))
       fresh_interactions_page"

text \<open>The search page with three current medications selected.\<close>

definition unknown_medications_page :: index_page where
  "unknown_medications_page =
     fresh_index_page\<lparr>selectedMedications := [''Warfarin'', ''Xanadrin123'', ''Qqq'']\<rparr>"

text \<open>
  A translation cache in which record 7 carries an AI description, and a paraphraser
  that would answer with other words.
\<close>

definition example_cache :: translation_cache where
  "example_cache =
     \<lparr>stored_ai_description = (\<lambda>_. None)(7 := Some ''Taking both can cause bleeding.''),
      paraphraser_calls = []\<rparr>"

definition other_words :: "string \<Rightarrow> string option" where
  "other_words professionalText = Some ''Second text.''"

section \<open>Properties of the search page\<close>

subsection \<open>Basic facts\<close>

lemma network_showError [simp]: "network (showError m st) = network st"
  by (simp add: showError_def)

lemma errorMessage_showError [simp]: "errorMessage (showError m st) = Some m"
  by (simp add: showError_def)

lemma selectedMedications_showError [simp]:
  "selectedMedications (showError m st) = selectedMedications st"
  by (simp add: showError_def)

lemma network_resetButton [simp]: "network (resetButton st) = network st"
  by (simp add: resetButton_def)

lemma network_abort_with [simp]: "network (abort_with m st) = network st"
  by (simp add: abort_with_def)

lemma errorMessage_abort_with [simp]: "errorMessage (abort_with m st) = Some m"
  by (simp add: abort_with_def resetButton_def showError_def)

lemma network_connection_error [simp]: "network (connection_error st) = network st"
  by (simp add: connection_error_def)

lemma network_logout [simp]: "network (logout st) = network st"
  by (simp add: logout_def)

lemma network_fetch [simp]: "network (fetch rq st) = network st @ [rq]"
  by (simp add: fetch_def)

lemma selectedMedications_fetch [simp]:
  "selectedMedications (fetch rq st) = selectedMedications st"
  by (simp add: fetch_def)

lemma network_set_dropdown [simp]: "network (set_dropdown d v st) = network st"
  by (cases d) (simp_all add: set_dropdown_def)

lemma get_set_dropdown [simp]: "get_dropdown d (set_dropdown d v st) = v"
  by (cases d) (simp_all add: set_dropdown_def get_dropdown_def)

lemma network_hide_dropdown [simp]: "network (hide_dropdown d st) = network st"
  by (simp add: hide_dropdown_def)

lemma dd_show_hide_dropdown [simp]: "dd_show (get_dropdown d (hide_dropdown d st)) = False"
  by (simp add: hide_dropdown_def)

lemma selectedMedications_renderSelectedMedications [simp]:
  "selectedMedications (renderSelectedMedications st) = selectedMedications st"
  by (simp add: renderSelectedMedications_def Let_def)

lemma network_renderSelectedMedications [simp]:
  "network (renderSelectedMedications st) = network st"
  by (simp add: renderSelectedMedications_def Let_def)

lemma errorMessage_renderSelectedMedications [simp]:
  "errorMessage (renderSelectedMedications st) = errorMessage st"
  by (simp add: renderSelectedMedications_def Let_def)

lemma network_addMedication [simp]: "network (addMedication nm st) = network st"
  by (simp add: addMedication_def)

lemma network_removeMedication [simp]: "network (removeMedication nm st) = network st"
  by (simp add: removeMedication_def)

lemma selectedMedications_fresh [simp]: "selectedMedications fresh_index_page = []"
  by (simp add: fresh_index_page_def)

lemma network_fresh [simp]: "network fresh_index_page = []"
  by (simp add: fresh_index_page_def)

lemma selectedMedications_warfarin [simp]: "selectedMedications warfarin_page = [''Warfarin'']"
  by (simp add: warfarin_page_def)

lemma network_warfarin [simp]: "network warfarin_page = []"
  by (simp add: warfarin_page_def)

subsection \<open>Validation before the interaction fetch\<close>

lemma selectedMedications_unknown [simp]:
  "selectedMedications unknown_medications_page = [''Warfarin'', ''Xanadrin123'', ''Qqq'']"
  by (simp add: unknown_medications_page_def)

lemma network_unknown [simp]: "network unknown_medications_page = []"
  by (simp add: unknown_medications_page_def)

text \<open>Every element of a joined list occurs in the joined string.\<close>

lemma join_contains:
  "m \<in> set xs \<Longrightarrow> \<exists>pre post. join sep xs = pre @ m @ post"
proof (induction sep xs rule: join.induct)
  case (1 sep)
  then show ?case by simp
next
  case (2 sep x)
  then have "join sep [x] = [] @ m @ []" by simp
  then show ?case by blast
next
  case (3 sep x y ys)
  show ?case
  proof (cases "m = x")
    case True
    then have "join sep (x # y # ys) = [] @ m @ (sep @ join sep (y # ys))" by simp
    then show ?thesis by blast
  next
    case False
    with 3 obtain pre post where "join sep (y # ys) = pre @ m @ post" by auto
    then have "join sep (x # y # ys) = (x @ sep @ pre) @ m @ post" by simp
    then show ?thesis by blast
  qed
qed

text \<open>
  Claim C1. A run of \<open>checkDrugInteraction\<close> issues a \<open>/check_drug_interactions\<close>
  request only as the fourth request of the run, after the validation of the prescribed
  drug, the lookup of the condition and the validation of the current medications, in
  this order, and only if all three passed. A validation step that fails ends the run
  with the requests made so far, none of them the interaction fetch, and the error
  shown is the text of that step with the offending term in it: the prescribed drug
  or the condition between quotation marks, or the medications the server reported,
  each of them part of the text. (A step passes as the function tests it: the body of
  the response reports no unknown drug, or holds a first match for the condition.)
\<close>

theorem checkDrugInteraction_validates_before_fetch:
  "let st' = checkDrugInteraction d c r1 r2 r3 r4 st; meds = selectedMedications st in
   (CheckDrugInteractions ms pd \<in> set (issued st st') \<longrightarrow>
      issued st st' = [ValidateDrugs [d], SearchConditions c, ValidateDrugs meds,
                       CheckDrugInteractions meds d] \<and>
      validation_passed r1 \<and> condition_passed r2 \<and> validation_passed r3) \<and>
   (d \<noteq> [] \<and> c \<noteq> [] \<and> meds \<noteq> [] \<longrightarrow>
      (r1 = Reply (Some nf1) \<and> nf1 \<noteq> [] \<longrightarrow>
         issued st st' = [ValidateDrugs [d]] \<and>
         errorMessage st' =
           Some (''Drug '' @ [CHR 0x22] @ d @ [CHR 0x22] @
                 '' was not found. Please check the spelling or try a different name.'')) \<and>
      (validation_passed r1 \<and> r2 = Reply cd \<and> \<not> condition_found cd \<longrightarrow>
         issued st st' = [ValidateDrugs [d], SearchConditions c] \<and>
         errorMessage st' =
           Some (''Condition '' @ [CHR 0x22] @ c @ [CHR 0x22] @
                 '' was not found. Please check the spelling.'')) \<and>
      (validation_passed r1 \<and> condition_passed r2 \<and> r3 = Reply (Some nf3) \<and> nf3 \<noteq> [] \<longrightarrow>
         issued st st' = [ValidateDrugs [d], SearchConditions c, ValidateDrugs meds] \<and>
         errorMessage st' =
           Some (''The following medications were not found: '' @ join '', '' nf3) \<and>
         (\<forall>m \<in> set nf3. \<exists>pre post. join '', '' nf3 = pre @ m @ post)))"
proof -
  have "\<forall>m \<in> set nf3. \<exists>pre post. join '', '' nf3 = pre @ m @ post"
    by (simp add: join_contains)
  then show ?thesis
    by (auto simp add: checkDrugInteraction_def issued_def Let_def validation_passed_def
          condition_passed_def has_not_found_def drug_not_found_message_def
          condition_not_found_message_def medications_not_found_message_def
          split: reply.splits)
qed

theorem checkDrugInteraction_validates_before_fetch_witness:
  "CheckDrugInteractions [''Warfarin''] ''Aspirin''
     \<in> set (issued warfarin_page
               (checkDrugInteraction ''Aspirin'' ''Hypertension'' (Reply (Some []))
                  (Reply (Some [Some ''Hypertension''])) (Reply (Some []))
                  (Reply (200, empty_bundle)) warfarin_page)) \<and>
   issued warfarin_page
     (checkDrugInteraction ''Aspirin'' ''Hypertension'' (Reply (Some []))
        (Reply (Some [Some ''Hypertension''])) (Reply (Some []))
        (Reply (200, empty_bundle)) warfarin_page) =
     [ValidateDrugs [''Aspirin''], SearchConditions ''Hypertension'',
      ValidateDrugs [''Warfarin''], CheckDrugInteractions [''Warfarin''] ''Aspirin''] \<and>
   issued warfarin_page
     (checkDrugInteraction ''Aspirin'' ''Hypertension'' (Reply (Some [''Aspirin'']))
        Threw Threw Threw warfarin_page) = [ValidateDrugs [''Aspirin'']] \<and>
   errorMessage
     (checkDrugInteraction ''Aspirin'' ''Hypertension'' (Reply (Some [''Aspirin'']))
        Threw Threw Threw warfarin_page) =
     Some (''Drug '' @ [CHR 0x22] @ ''Aspirin'' @ [CHR 0x22] @
           '' was not found. Please check the spelling or try a different name.'') \<and>
   issued warfarin_page
     (checkDrugInteraction ''Aspirin'' ''Hypertension'' (Reply (Some []))
        (Reply (Some [])) Threw Threw warfarin_page) =
     [ValidateDrugs [''Aspirin''], SearchConditions ''Hypertension''] \<and>
   errorMessage
     (checkDrugInteraction ''Aspirin'' ''Hypertension'' (Reply (Some []))
        (Reply (Some [])) Threw Threw warfarin_page) =
     Some (''Condition '' @ [CHR 0x22] @ ''Hypertension'' @ [CHR 0x22] @
           '' was not found. Please check the spelling.'') \<and>
   issued unknown_medications_page
     (checkDrugInteraction ''Aspirin'' ''Hypertension'' (Reply (Some []))
        (Reply (Some [Some ''Hypertension''])) (Reply (Some [''Xanadrin123'', ''Qqq'']))
        Threw unknown_medications_page) =
     [ValidateDrugs [''Aspirin''], SearchConditions ''Hypertension'',
      ValidateDrugs [''Warfarin'', ''Xanadrin123'', ''Qqq'']] \<and>
   errorMessage
     (checkDrugInteraction ''Aspirin'' ''Hypertension'' (Reply (Some []))
        (Reply (Some [Some ''Hypertension''])) (Reply (Some [''Xanadrin123'', ''Qqq'']))
        Threw unknown_medications_page) =
     Some ''The following medications were not found: Xanadrin123, Qqq''"
proof -
  have ok: "validation_passed (Reply (Some []))"
    by (simp add: validation_passed_def has_not_found_def)
  have found: "condition_passed (Reply (Some [Some ''Hypertension'']))"
    by (simp add: condition_passed_def condition_found_def truthy_def)
  have missing: "\<not> condition_found (Some [])"
    by (simp add: condition_found_def)
  have fetched:
    "CheckDrugInteractions [''Warfarin''] ''Aspirin''
       \<in> set (issued warfarin_page
                 (checkDrugInteraction ''Aspirin'' ''Hypertension'' (Reply (Some []))
                    (Reply (Some [Some ''Hypertension''])) (Reply (Some []))
                    (Reply (200, empty_bundle)) warfarin_page))"
    by (simp add: checkDrugInteraction_def issued_def Let_def has_not_found_def
          condition_found_def truthy_def)
  show ?thesis
    using fetched ok found missing
      checkDrugInteraction_validates_before_fetch
        [where d = "''Aspirin''" and c = "''Hypertension''" and ?r1.0 = "Reply (Some [])"
           and ?r2.0 = "Reply (Some [Some ''Hypertension''])" and ?r3.0 = "Reply (Some [])"
           and ?r4.0 = "Reply (200, empty_bundle)" and st = warfarin_page
           and ms = "[''Warfarin'']" and pd = "''Aspirin''"]
      checkDrugInteraction_validates_before_fetch
        [where d = "''Aspirin''" and c = "''Hypertension''"
           and ?r1.0 = "Reply (Some [''Aspirin''])" and ?r2.0 = Threw and ?r3.0 = Threw
           and ?r4.0 = Threw and st = warfarin_page and ?nf1.0 = "[''Aspirin'']"]
      checkDrugInteraction_validates_before_fetch
        [where d = "''Aspirin''" and c = "''Hypertension''" and ?r1.0 = "Reply (Some [])"
           and ?r2.0 = "Reply (Some [])" and ?r3.0 = Threw and ?r4.0 = Threw
           and st = warfarin_page and cd = "Some []"]
      checkDrugInteraction_validates_before_fetch
        [where d = "''Aspirin''" and c = "''Hypertension''" and ?r1.0 = "Reply (Some [])"
           and ?r2.0 = "Reply (Some [Some ''Hypertension''])"
           and ?r3.0 = "Reply (Some [''Xanadrin123'', ''Qqq''])" and ?r4.0 = Threw
           and st = unknown_medications_page and ?nf3.0 = "[''Xanadrin123'', ''Qqq'']"]
    by (simp add: Let_def)
qed

subsection \<open>An aggregate check without current medications\<close>

text \<open>
  Claim C8, as amended. A run of \<open>checkDrugInteraction\<close> with no current medication
  selected issues no request at all. The error it shows is the first that applies of:
  the prescribed drug is missing, the condition is missing, at least one current
  medication is required. So the error asks for a medication when the two fields are
  filled in.
\<close>

theorem checkDrugInteraction_no_medications:
  "selectedMedications st = [] \<Longrightarrow>
     issued st (checkDrugInteraction d c r1 r2 r3 r4 st) = [] \<and>
     errorMessage (checkDrugInteraction d c r1 r2 r3 r4 st) =
       Some (if d = [] then ''Please enter the drug being prescribed''
             else if c = [] then ''Please enter the condition being treated''
             else ''Please add at least one current medication'')"
  by (simp add: checkDrugInteraction_def issued_def)

theorem checkDrugInteraction_no_medications_witness:
  "selectedMedications fresh_index_page = [] \<and>
   issued fresh_index_page
     (checkDrugInteraction ''Aspirin'' ''Hypertension'' Threw Threw Threw Threw
        fresh_index_page) = [] \<and>
   errorMessage
     (checkDrugInteraction ''Aspirin'' ''Hypertension'' Threw Threw Threw Threw
        fresh_index_page) = Some ''Please add at least one current medication''"
  using checkDrugInteraction_no_medications
    [of fresh_index_page "''Aspirin''" "''Hypertension''" Threw Threw Threw Threw]
  by simp

text \<open>
  With no medication selected and the drug field empty, the error shown is about the
  drug, not about the medications.
\<close>

theorem checkDrugInteraction_no_medications_counterexample:
  "selectedMedications fresh_index_page = [] \<and>
   errorMessage
     (checkDrugInteraction [] ''Hypertension'' Threw Threw Threw Threw fresh_index_page) =
     Some ''Please enter the drug being prescribed'' \<and>
   errorMessage
     (checkDrugInteraction [] ''Hypertension'' Threw Threw Threw Threw fresh_index_page) \<noteq>
     Some ''Please add at least one current medication''"
  by (simp add: checkDrugInteraction_def)

subsection \<open>Autocomplete\<close>

text \<open>
  Claim C9. \<open>fetchAutocomplete\<close> with a query of fewer than 2 characters issues no
  request and leaves the dropdown hidden; whenever it issues a request, the query has
  at least 2 characters and the request is the autocomplete request for that query.
  (Characters are counted as \<open>query.length\<close> counts them.)
\<close>

theorem fetchAutocomplete_min_query:
  "(length query < 2 \<longrightarrow>
      issued st (fetchAutocomplete query ty d multi resp st) = [] \<and>
      \<not> dd_show (get_dropdown d (fetchAutocomplete query ty d multi resp st))) \<and>
   (issued st (fetchAutocomplete query ty d multi resp st) \<noteq> [] \<longrightarrow>
      2 \<le> length query \<and>
      issued st (fetchAutocomplete query ty d multi resp st) = [Autocomplete ty query])"
  by (cases resp) (simp_all add: fetchAutocomplete_def issued_def Let_def)

theorem fetchAutocomplete_min_query_witness:
  "length ''a'' < 2 \<and>
   issued fresh_index_page
     (fetchAutocomplete ''a'' ''drugs'' DrugAutocomplete False (Reply [(''Aspirin'', None)])
        fresh_index_page) = [] \<and>
   \<not> dd_show (get_dropdown DrugAutocomplete
        (fetchAutocomplete ''a'' ''drugs'' DrugAutocomplete False (Reply [(''Aspirin'', None)])
           fresh_index_page)) \<and>
   issued fresh_index_page
     (fetchAutocomplete ''as'' ''drugs'' DrugAutocomplete False (Reply [(''Aspirin'', None)])
        fresh_index_page) \<noteq> [] \<and>
   2 \<le> length ''as'' \<and>
   issued fresh_index_page
     (fetchAutocomplete ''as'' ''drugs'' DrugAutocomplete False (Reply [(''Aspirin'', None)])
        fresh_index_page) = [Autocomplete ''drugs'' ''as'']"
proof -
  have made:
    "issued fresh_index_page
       (fetchAutocomplete ''as'' ''drugs'' DrugAutocomplete False
          (Reply [(''Aspirin'', None)]) fresh_index_page) \<noteq> []"
    by (simp add: fetchAutocomplete_def issued_def Let_def)
  show ?thesis
    using made
      fetchAutocomplete_min_query
        [of "''a''" fresh_index_page "''drugs''" DrugAutocomplete False
            "Reply [(''Aspirin'', None)]"]
      fetchAutocomplete_min_query
        [of "''as''" fresh_index_page "''drugs''" DrugAutocomplete False
            "Reply [(''Aspirin'', None)]"]
    by simp
qed

subsection \<open>The selected medications\<close>

lemma toLowerCase_Nil [simp]: "toLowerCase s = [] \<longleftrightarrow> s = []"
  by (simp add: toLowerCase_def)

lemma not_already_added:
  assumes "toLowerCase nm \<notin> toLowerCase ` set meds"
  shows "\<not> already_added nm meds"
proof -
  from assms have "find (\<lambda>m. toLowerCase m = toLowerCase nm) meds = None"
    unfolding find_None_iff by (metis image_eqI)
  then show ?thesis by (simp add: already_added_def truthy_def)
qed

lemma already_added_iff:
  assumes "nm \<noteq> []"
  shows "already_added nm meds \<longleftrightarrow> toLowerCase nm \<in> toLowerCase ` set meds"
proof
  assume "already_added nm meds"
  then obtain m where "find (\<lambda>m. toLowerCase m = toLowerCase nm) meds = Some m"
    by (auto simp add: already_added_def truthy_def split: option.splits)
  then have "m \<in> set meds" "toLowerCase m = toLowerCase nm"
    by (auto simp add: find_Some_iff)
  then show "toLowerCase nm \<in> toLowerCase ` set meds" by (metis image_eqI)
next
  assume "toLowerCase nm \<in> toLowerCase ` set meds"
  then obtain m where m: "find (\<lambda>m. toLowerCase m = toLowerCase nm) meds = Some m"
    by (cases "find (\<lambda>m. toLowerCase m = toLowerCase nm) meds") (auto simp add: find_None_iff)
  then have "toLowerCase m = toLowerCase nm"
    by (auto simp add: find_Some_iff)
  with assms have "m \<noteq> []" by (metis toLowerCase_Nil)
  with m show "already_added nm meds" by (simp add: already_added_def truthy_def)
qed

lemma addMedication_accepts:
  "length (selectedMedications st) < MAX_MEDICATIONS \<Longrightarrow>
   toLowerCase nm \<notin> toLowerCase ` set (selectedMedications st) \<Longrightarrow>
   selectedMedications (addMedication nm st) = selectedMedications st @ [nm]"
  by (simp add: addMedication_def not_already_added)

lemma addMedication_all:
  "length (selectedMedications st) + length names \<le> MAX_MEDICATIONS \<Longrightarrow>
   distinct (map toLowerCase (selectedMedications st @ names)) \<Longrightarrow>
   selectedMedications (foldl (\<lambda>s n. addMedication n s) st names) =
     selectedMedications st @ names"
proof (induction names arbitrary: st)
  case Nil
  then show ?case by simp
next
  case (Cons n names)
  have step: "selectedMedications (addMedication n st) = selectedMedications st @ [n]"
    using Cons.prems by (intro addMedication_accepts) auto
  have "selectedMedications (foldl (\<lambda>s n. addMedication n s) (addMedication n st) names) =
          selectedMedications (addMedication n st) @ names"
    using Cons.prems by (intro Cons.IH) (auto simp add: step)
  then show ?case by (simp add: step)
qed

text \<open>
  Claim C5. Starting from an empty selection, adding up to 5 names that differ from one
  another case-insensitively selects exactly these names; once 5 medications are
  selected, \<open>addMedication\<close> leaves the list as it is, shows the error
  \<open>Maximum 5 medications allowed\<close> and issues no request.
\<close>

theorem addMedication_boundary:
  "(selectedMedications st = [] \<and> length names \<le> 5 \<and> distinct (map toLowerCase names) \<longrightarrow>
      selectedMedications (foldl (\<lambda>s n. addMedication n s) st names) = names) \<and>
   (length (selectedMedications st) = 5 \<longrightarrow>
      selectedMedications (addMedication nm st) = selectedMedications st \<and>
      errorMessage (addMedication nm st) = Some ''Maximum 5 medications allowed'' \<and>
      issued st (addMedication nm st) = [])"
proof (intro conjI impI)
  assume "selectedMedications st = [] \<and> length names \<le> 5 \<and> distinct (map toLowerCase names)"
  then show "selectedMedications (foldl (\<lambda>s n. addMedication n s) st names) = names"
    using addMedication_all [of st names] by (simp add: MAX_MEDICATIONS_def)
next
  assume "length (selectedMedications st) = 5"
  then show "selectedMedications (addMedication nm st) = selectedMedications st"
    and "errorMessage (addMedication nm st) = Some ''Maximum 5 medications allowed''"
    by (simp_all add: addMedication_def MAX_MEDICATIONS_def)
next
  show "issued st (addMedication nm st) = []" by (simp add: issued_def)
qed

theorem addMedication_boundary_witness:
  "selectedMedications fresh_index_page = [] \<and>
   length five_medications = 5 \<and>
   distinct (map toLowerCase five_medications) \<and>
   selectedMedications (foldl (\<lambda>s n. addMedication n s) fresh_index_page five_medications) =
     five_medications \<and>
   selectedMedications
     (addMedication ''Atorvastatin''
        (foldl (\<lambda>s n. addMedication n s) fresh_index_page five_medications)) =
     five_medications \<and>
   errorMessage
     (addMedication ''Atorvastatin''
        (foldl (\<lambda>s n. addMedication n s) fresh_index_page five_medications)) =
     Some ''Maximum 5 medications allowed'' \<and>
   issued (foldl (\<lambda>s n. addMedication n s) fresh_index_page five_medications)
     (addMedication ''Atorvastatin''
        (foldl (\<lambda>s n. addMedication n s) fresh_index_page five_medications)) = []"
proof -
  have len: "length five_medications = 5"
    by (simp add: five_medications_def)
  have dist: "distinct (map toLowerCase five_medications)"
    by code_simp
  have all: "selectedMedications
               (foldl (\<lambda>s n. addMedication n s) fresh_index_page five_medications) =
             five_medications"
    using len dist addMedication_boundary [of fresh_index_page five_medications]
    by simp
  show ?thesis
    using len dist all
      addMedication_boundary
        [of "foldl (\<lambda>s n. addMedication n s) fresh_index_page five_medications" _
            "''Atorvastatin''"]
    by simp
qed

lemma addMedication_invariant:
  assumes "medications_invariant (selectedMedications st)" and "nm \<noteq> []"
  shows "medications_invariant (selectedMedications (addMedication nm st))"
proof (cases "length (selectedMedications st) \<ge> MAX_MEDICATIONS \<or>
              already_added nm (selectedMedications st)")
  case True
  then show ?thesis using assms(1) by (auto simp add: addMedication_def)
next
  case False
  then have "toLowerCase nm \<notin> toLowerCase ` set (selectedMedications st)"
    using already_added_iff [OF assms(2)] by simp
  with False assms(1) show ?thesis
    by (auto simp add: addMedication_def medications_invariant_def)
qed

lemma removeMedication_invariant:
  assumes "medications_invariant (selectedMedications st)"
  shows "medications_invariant (selectedMedications (removeMedication nm st))"
proof -
  have "length (filter (\<lambda>m. m \<noteq> nm) (selectedMedications st)) \<le> length (selectedMedications st)"
    by (rule length_filter_le)
  also have "\<dots> \<le> MAX_MEDICATIONS"
    using assms by (simp add: medications_invariant_def)
  finally have "length (filter (\<lambda>m. m \<noteq> nm) (selectedMedications st)) \<le> MAX_MEDICATIONS" .
  moreover have "distinct (map toLowerCase (filter (\<lambda>m. m \<noteq> nm) (selectedMedications st)))"
    using assms by (simp add: medications_invariant_def distinct_map_filter)
  ultimately show ?thesis
    by (simp add: removeMedication_def medications_invariant_def)
qed

text \<open>
  Claim C10. The invariant of the selected medications (at most 5 names, no two of them
  equal case-insensitively) is not preserved by \<open>addMedication\<close> for the empty name:
  the duplicate check tests the element that \<open>find\<close> returns, and the empty string is
  falsy. Adding the empty name twice to the empty selection gives a list that holds it
  twice. (For every other name the invariant is preserved: \<open>addMedication_invariant\<close>,
  \<open>removeMedication_invariant\<close>.)
\<close>

theorem addMedication_empty_name_twice:
  "medications_invariant (selectedMedications (addMedication [] fresh_index_page)) \<and>
   selectedMedications (addMedication [] (addMedication [] fresh_index_page)) = [[], []] \<and>
   \<not> medications_invariant
       (selectedMedications (addMedication [] (addMedication [] fresh_index_page)))"
  by (simp add: addMedication_def fresh_index_page_def already_added_def truthy_def
        renderSelectedMedications_def MAX_MEDICATIONS_def medications_invariant_def Let_def)

section \<open>Properties of the merge\<close>

text \<open>The merge loses no interaction and lists none twice.\<close>

lemma merge_interactions_ids:
  "set (map di_interaction (merge_interactions listed rs)) =
     set (map di_interaction listed) \<union> set (map di_interaction rs)"
  by (induction rs arbitrary: listed) auto

lemma merge_interactions_distinct:
  "distinct (map di_interaction listed) \<Longrightarrow>
     distinct (map di_interaction (merge_interactions listed rs))"
  by (induction rs arbitrary: listed) auto

lemma entries_for_absent:
  "i \<notin> set (map di_interaction rs) \<Longrightarrow> entries_for i rs = []"
  unfolding entries_for_def filter_empty_conv by (metis image_eqI set_map)

text \<open>The merge keeps, for every interaction, the first row that carries it.\<close>

lemma merge_keeps_first:
  "distinct (map di_interaction listed) \<Longrightarrow>
   entries_for i (merge_interactions listed rs) =
     (if i \<in> set (map di_interaction listed) then entries_for i listed
      else (case find (\<lambda>r. di_interaction r = i) rs of None \<Rightarrow> [] | Some r \<Rightarrow> [r]))"
proof (induction rs arbitrary: listed)
  case Nil
  then show ?case by (simp add: entries_for_absent)
next
  case (Cons r rs)
  show ?case
  proof (cases "di_interaction r \<in> set (map di_interaction listed)")
    case True
    with Cons show ?thesis by auto
  next
    case False
    with Cons.prems have d: "distinct (map di_interaction (listed @ [r]))" by simp
    note IH = Cons.IH [OF d]
    show ?thesis
    proof (cases "i = di_interaction r")
      case True
      with False have "entries_for i listed = []" by (simp add: entries_for_absent)
      with True False IH show ?thesis by (simp add: entries_for_def)
    next
      case neq: False
      with False IH show ?thesis by (auto simp add: entries_for_def)
    qed
  qed
qed

text \<open>
  Claim C2. When two of the checked drugs share a drug-drug interaction record (the
  junction table lists the interaction under both), the merged list holds exactly one
  entry for that interaction: the row fetched first, under the drug that comes first
  among the checked drugs; the row of the other drug is not listed again.
\<close>

theorem merged_pair_listed_once:
  assumes "a \<in> set ds" and "b \<in> set ds"
    and "ra \<in> set table" and "di_drug ra = a" and "di_interaction ra = i"
    and "rb \<in> set table" and "di_drug rb = b" and "di_interaction rb = i"
  shows "\<exists>r. entries_for i (merged_interactions table ds) = [r] \<and>
             find (\<lambda>r. di_interaction r = i) (fetched_rows table ds) = Some r"
proof -
  have "ra \<in> set (fetched_rows table ds)"
    using assms(1,3,4) by (auto simp add: fetched_rows_def interactionsFor_def)
  with assms(5) obtain r where
    "find (\<lambda>r. di_interaction r = i) (fetched_rows table ds) = Some r"
    by (cases "find (\<lambda>r. di_interaction r = i) (fetched_rows table ds)")
       (auto simp add: find_None_iff)
  then show ?thesis
    using merge_keeps_first [of "[]" i "fetched_rows table ds"]
    by (simp add: merged_interactions_def)
qed

theorem merged_pair_listed_once_witness:
  "(1::nat) \<in> set [1, 2] \<and> (2::nat) \<in> set [1, 2] \<and>
   example_table ! 0 \<in> set example_table \<and> di_drug (example_table ! 0) = 1 \<and>
   di_interaction (example_table ! 0) = 7 \<and>
   example_table ! 1 \<in> set example_table \<and> di_drug (example_table ! 1) = 2 \<and>
   di_interaction (example_table ! 1) = 7 \<and>
   entries_for 7 (merged_interactions example_table [1, 2]) = [example_table ! 0] \<and>
   merged_interactions example_table [1, 2] = [example_table ! 0, example_table ! 2]"
proof -
  have rows:
    "example_table ! 0 \<in> set example_table" "di_drug (example_table ! 0) = 1"
    "di_interaction (example_table ! 0) = 7"
    "example_table ! 1 \<in> set example_table" "di_drug (example_table ! 1) = 2"
    "di_interaction (example_table ! 1) = 7"
    by (simp_all add: example_table_def)
  have merged:
    "merged_interactions example_table [1, 2] = [example_table ! 0, example_table ! 2]"
    by (simp add: merged_interactions_def fetched_rows_def interactionsFor_def
          example_table_def)
  have first: "entries_for 7 [example_table ! 0, example_table ! 2] = [example_table ! 0]"
    by (simp add: entries_for_def example_table_def)
  show ?thesis
    using rows merged first
      merged_pair_listed_once
        [of 1 "[1, 2]" 2 "example_table ! 0" example_table 7 "example_table ! 1"]
    by simp
qed

section \<open>Properties of the results page and the details page\<close>

subsection \<open>Basic facts\<close>

lemma get_set_list [simp]: "get_list k (set_list k v st) = v"
  by (cases k) (simp_all add: get_list_def set_list_def)

lemma get_set_list_other [simp]: "k' \<noteq> k \<Longrightarrow> get_list k' (set_list k v st) = get_list k' st"
  by (cases k; cases k') (simp_all add: get_list_def set_list_def)

lemma set_get_list [simp]: "set_list k (get_list k st) st = st"
  by (cases k) (simp_all add: get_list_def set_list_def)

lemma set_set_list [simp]: "set_list k v (set_list k w st) = set_list k v st"
  by (cases k) (simp_all add: set_list_def)

lemma get_list_fetch [simp]: "get_list k (fetch rq st) = get_list k st"
  by (cases k) (simp_all add: get_list_def fetch_def)

lemma set_list_fetch: "set_list k v (fetch rq st) = fetch rq (set_list k v st)"
  by (cases k) (simp_all add: set_list_def fetch_def)

lemma network_set_list [simp]: "network (set_list k v st) = network st"
  by (cases k) (simp_all add: set_list_def)

lemma records_set_list [simp]:
  "drugDrugInteractions (set_list k v st) = drugDrugInteractions st"
  "foodInteractions (set_list k v st) = foodInteractions st"
  "diseaseInteractions (set_list k v st) = diseaseInteractions st"
  by (cases k; simp add: set_list_def)+

lemma records_fetch [simp]:
  "drugDrugInteractions (fetch rq st) = drugDrugInteractions st"
  "foodInteractions (fetch rq st) = foodInteractions st"
  "diseaseInteractions (fetch rq st) = diseaseInteractions st"
  by (simp_all add: fetch_def)

lemma update_card_twice [simp]:
  "update_card p f (update_card p g c) = update_card p (f \<circ> g) c"
  by (cases c) simp_all

lemma cards_of_update_card:
  "cards_of (update_card p f c) =
     (if p < length (cards_of c) then (cards_of c)[p := f (cards_of c ! p)] else cards_of c)"
  by (cases c) simp_all

lemma update_card_id:
  "(p < length (cards_of c) \<Longrightarrow> f (cards_of c ! p) = cards_of c ! p) \<Longrightarrow> update_card p f c = c"
  by (cases c) simp_all

lemma get_list_update_button [simp]:
  "get_list k (update_button k p f st) =
     update_card p (\<lambda>c. c\<lparr>card_translate_btn := map_option f (card_translate_btn c)\<rparr>)
       (get_list k st)"
  by (simp add: update_button_def)

lemma get_list_update_button_other [simp]:
  "k' \<noteq> k \<Longrightarrow> get_list k' (update_button k p f st) = get_list k' st"
  by (simp add: update_button_def)

lemma network_update_button [simp]: "network (update_button k p f st) = network st"
  by (simp add: update_button_def)

lemma records_update_button [simp]:
  "drugDrugInteractions (update_button k p f st) = drugDrugInteractions st"
  "foodInteractions (update_button k p f st) = foodInteractions st"
  "diseaseInteractions (update_button k p f st) = diseaseInteractions st"
  by (simp_all add: update_button_def)

lemma update_button_fetch:
  "update_button k p f (fetch rq st) = fetch rq (update_button k p f st)"
  by (simp add: update_button_def set_list_fetch)

lemma update_button_twice [simp]:
  "update_button k p f (update_button k p g st) = update_button k p (f \<circ> g) st"
  by (simp add: update_button_def comp_def option.map_comp)

subsection \<open>A failed translation\<close>

lemma failed_after_start:
  "translation_failed k p (start_translating k p st) =
     update_button k p
       (\<lambda>b. b\<lparr>btn_disabled := True, btn_label := ''Translation failed'',
               btn_reset_pending := True\<rparr>) st"
  by (simp add: translation_failed_def start_translating_def comp_def)

lemma translateDescription_failed:
  assumes "\<not> translation_succeeded resp"
  shows "translateDescription index p resp st =
           translation_failed DrugDrug p (start_translating DrugDrug p st) \<or>
         (\<exists>rq. translateDescription index p resp st =
            fetch rq (translation_failed DrugDrug p (start_translating DrugDrug p st)))"
  using assms
  by (auto simp add: translateDescription_def translation_succeeded_def Let_def
        translation_failed_def start_translating_def update_button_fetch
        split: translate_response.splits reply.splits bool.splits)

lemma translateFoodDescription_failed:
  assumes "\<not> translation_succeeded resp"
  shows "translateFoodDescription index p resp st =
           translation_failed Food p (start_translating Food p st) \<or>
         (\<exists>rq. translateFoodDescription index p resp st =
            fetch rq (translation_failed Food p (start_translating Food p st)))"
  using assms
  by (auto simp add: translateFoodDescription_def translation_succeeded_def Let_def
        translation_failed_def start_translating_def update_button_fetch
        split: translate_response.splits reply.splits bool.splits)

lemma translateDiseaseDescription_failed:
  assumes "\<not> translation_succeeded resp"
  shows "translateDiseaseDescription index p resp st =
           translation_failed Disease p (start_translating Disease p st) \<or>
         (\<exists>rq. translateDiseaseDescription index p resp st =
            fetch rq (translation_failed Disease p (start_translating Disease p st)))"
  using assms
  by (auto simp add: translateDiseaseDescription_def translation_succeeded_def Let_def
        translation_failed_def start_translating_def update_button_fetch
        split: translate_response.splits reply.splits bool.splits)

lemma click_translate_failed:
  assumes "button_at k p st = Some b" and "\<not> btn_disabled b"
    and "\<not> translation_succeeded resp"
  shows "click_translate k p resp st =
           translation_failed k p (start_translating k p st) \<or>
         (\<exists>rq. click_translate k p resp st =
            fetch rq (translation_failed k p (start_translating k p st)))"
proof (cases k)
  case DrugDrug
  with assms(1,2) translateDescription_failed [OF assms(3)] show ?thesis
    by (simp add: click_translate_def Let_def)
next
  case Food
  with assms(1,2) translateFoodDescription_failed [OF assms(3)] show ?thesis
    by (simp add: click_translate_def Let_def)
next
  case Disease
  with assms(1,2) translateDiseaseDescription_failed [OF assms(3)] show ?thesis
    by (simp add: click_translate_def Let_def)
qed

lemma failed_attempt_lists:
  assumes "st1 = translation_failed k p (start_translating k p st) \<or>
           (\<exists>rq. st1 = fetch rq (translation_failed k p (start_translating k p st)))"
  shows "get_list k st1 =
           update_card p
             (\<lambda>c. c\<lparr>card_translate_btn :=
                      map_option (\<lambda>b. b\<lparr>btn_disabled := True, btn_label := ''Translation failed'',
                                           btn_reset_pending := True\<rparr>)
                        (card_translate_btn c)\<rparr>)
             (get_list k st)"
    and "k' \<noteq> k \<Longrightarrow> get_list k' st1 = get_list k' st"
    and "drugDrugInteractions st1 = drugDrugInteractions st"
    and "foodInteractions st1 = foodInteractions st"
    and "diseaseInteractions st1 = diseaseInteractions st"
  using assms by (auto simp add: failed_after_start)

lemma button_at_update_card:
  "button_at k p st = Some b \<Longrightarrow>
   get_list k st1 = update_card p (\<lambda>c. c\<lparr>card_translate_btn := map_option f (card_translate_btn c)\<rparr>) (get_list k st) \<Longrightarrow>
   button_at k p st1 = Some (f b)"
  by (auto simp add: button_at_def Let_def cards_of_update_card split: if_splits)

lemma map_update_same:
  assumes "\<And>x. h (f x) = h x"
  shows "map h (xs[p := f (xs ! p)]) = map h xs"
proof (rule nth_equalityI)
  show "length (map h (xs[p := f (xs ! p)])) = length (map h xs)" by simp
next
  fix i assume "i < length (map h (xs[p := f (xs ! p)]))"
  then show "map h (xs[p := f (xs ! p)]) ! i = map h xs ! i"
    using assms by (cases "i = p") simp_all
qed

lemma descriptions_update_card:
  "map card_description
     (cards_of (update_card p (\<lambda>c. c\<lparr>card_translate_btn := g c\<rparr>) c)) =
   map card_description (cards_of c)"
  by (cases c) (simp_all add: map_update_same)

lemma reset_after_failed:
  assumes "button_at k p st = Some new_button"
    and "st1 = translation_failed k p (start_translating k p st) \<or>
         (\<exists>rq. st1 = fetch rq (translation_failed k p (start_translating k p st)))"
  shows "get_list k (reset_timeout k p st1) = get_list k st"
proof -
  have "get_list k (reset_timeout k p st1) =
          update_card p
            (\<lambda>c. c\<lparr>card_translate_btn :=
                     map_option (\<lambda>b. b\<lparr>btn_disabled := False, btn_label := translate_label,
                                          btn_reset_pending := False\<rparr>)
                       (card_translate_btn c)\<rparr>)
            (get_list k st)"
    using assms(2)
    by (auto simp add: failed_after_start reset_timeout_def comp_def option.map_comp)
  also have "\<dots> = get_list k st"
    using assms(1)
    by (intro update_card_id)
       (auto simp add: button_at_def Let_def new_button_def split: if_splits)
  finally show ?thesis .
qed

lemma reset_other_lists:
  "k' \<noteq> k \<Longrightarrow> get_list k' (reset_timeout k p st) = get_list k' st"
  by (simp add: reset_timeout_def)

lemma records_reset_timeout [simp]:
  "drugDrugInteractions (reset_timeout k p st) = drugDrugInteractions st"
  "foodInteractions (reset_timeout k p st) = foodInteractions st"
  "diseaseInteractions (reset_timeout k p st) = diseaseInteractions st"
  by (simp_all add: reset_timeout_def)


lemma all_lists:
  "(\<And>k'. get_list k' st2 = get_list k' st) \<Longrightarrow>
     drugDrugList st2 = drugDrugList st \<and> foodList st2 = foodList st \<and>
     diseaseList st2 = diseaseList st"
proof -
  assume a: "\<And>k'. get_list k' st2 = get_list k' st"
  from a [of DrugDrug] a [of Food] a [of Disease] show ?thesis
    by (simp add: get_list_def)
qed

lemma requestTranslation_failed:
  assumes "\<not> translation_succeeded resp"
    and "currentInteraction dp = Some ci" and "truthy (professional_description ci)"
  shows "currentInteraction (requestTranslation resp dp) = Some ci"
    and "selectedInteraction (requestTranslation resp dp) = selectedInteraction dp"
    and "detailsCard (requestTranslation resp dp) = detailsCard dp"
    and "aiSectionShown (requestTranslation resp dp) = aiSectionShown dp"
    and "aiContent (requestTranslation resp dp) = aiContent dp"
    and "translateBtn (requestTranslation resp dp) =
           (translateBtn dp)\<lparr>tb_disabled := False, tb_label := generate_label\<rparr>"
  using assms
  by (auto simp add: requestTranslation_def translation_succeeded_def Let_def
        translation_unreachable_def fetch_def
        split: translate_response.splits reply.splits bool.splits)

text \<open>
  Claim C6. When a translate attempt does not succeed (the fetch rejects, the server
  answers with an error status, or the body cannot be read):
  \<^item> on the results page, for the card at any position of any of the three lists whose
    translate button is the enabled button the template rendered, the interaction
    records are as before (so the record still has no AI description), the cards show
    the same description texts, the button is disabled and reads \<open>Translation failed\<close>,
    and once the timeout has fired the three lists are as before the attempt, with the
    button enabled again;
  \<^item> on the details page, for an interaction with a professional description and an
    enabled, displayed button, the current interaction, the stored interaction, the
    details card and the AI section are as before, and the button is enabled and
    displayed again.
\<close>

theorem failed_translation_keeps_state:
  assumes "\<not> translation_succeeded resp"
  shows
    "(button_at k p st = Some new_button \<longrightarrow>
        (let st1 = click_translate k p resp st; st2 = reset_timeout k p st1 in
           drugDrugInteractions st1 = drugDrugInteractions st \<and>
           foodInteractions st1 = foodInteractions st \<and>
           diseaseInteractions st1 = diseaseInteractions st \<and>
           map card_description (cards_of (get_list k st1)) =
             map card_description (cards_of (get_list k st)) \<and>
           button_at k p st1 =
             Some \<lparr>btn_disabled = True, btn_label = ''Translation failed'',
                    btn_reset_pending = True\<rparr> \<and>
           drugDrugList st2 = drugDrugList st \<and> foodList st2 = foodList st \<and>
           diseaseList st2 = diseaseList st \<and>
           button_at k p st2 = Some new_button)) \<and>
     (currentInteraction dp = Some ci \<and> truthy (professional_description ci) \<and>
      tb_displayed (translateBtn dp) \<and> \<not> tb_disabled (translateBtn dp) \<longrightarrow>
        (let dp1 = click_translateBtn resp dp in
           currentInteraction dp1 = Some ci \<and>
           selectedInteraction dp1 = selectedInteraction dp \<and>
           detailsCard dp1 = detailsCard dp \<and>
           aiSectionShown dp1 = aiSectionShown dp \<and> aiContent dp1 = aiContent dp \<and>
           translateBtn dp1 = (translateBtn dp)\<lparr>tb_label := generate_label\<rparr>))"
proof (intro conjI impI)
  assume btn: "button_at k p st = Some new_button"
  define st1 where "st1 = click_translate k p resp st"
  define st2 where "st2 = reset_timeout k p st1"
  have enabled: "\<not> btn_disabled new_button" by (simp add: new_button_def)
  have shape:
    "st1 = translation_failed k p (start_translating k p st) \<or>
     (\<exists>rq. st1 = fetch rq (translation_failed k p (start_translating k p st)))"
    unfolding st1_def by (rule click_translate_failed [OF btn enabled assms])
  note lists = failed_attempt_lists [OF shape]
  have records:
    "drugDrugInteractions st1 = drugDrugInteractions st"
    "foodInteractions st1 = foodInteractions st"
    "diseaseInteractions st1 = diseaseInteractions st"
    by (rule lists)+
  have texts:
    "map card_description (cards_of (get_list k st1)) =
       map card_description (cards_of (get_list k st))"
    unfolding lists(1) by (rule descriptions_update_card)
  have failed:
    "button_at k p st1 =
       Some \<lparr>btn_disabled = True, btn_label = ''Translation failed'',
              btn_reset_pending = True\<rparr>"
    using button_at_update_card [OF btn lists(1)] by (simp add: new_button_def)
  have same: "get_list k' st2 = get_list k' st" for k'
  proof (cases "k' = k")
    case True
    then show ?thesis
      unfolding st2_def using reset_after_failed [OF btn shape] by simp
  next
    case False
    then show ?thesis
      unfolding st2_def using lists(2) [of k'] by (simp add: reset_other_lists)
  qed
  have restored: "button_at k p st2 = Some new_button"
    using btn same [of k] by (simp add: button_at_def)
  show "let st1 = click_translate k p resp st; st2 = reset_timeout k p st1 in
           drugDrugInteractions st1 = drugDrugInteractions st \<and>
           foodInteractions st1 = foodInteractions st \<and>
           diseaseInteractions st1 = diseaseInteractions st \<and>
           map card_description (cards_of (get_list k st1)) =
             map card_description (cards_of (get_list k st)) \<and>
           button_at k p st1 =
             Some \<lparr>btn_disabled = True, btn_label = ''Translation failed'',
                    btn_reset_pending = True\<rparr> \<and>
           drugDrugList st2 = drugDrugList st \<and> foodList st2 = foodList st \<and>
           diseaseList st2 = diseaseList st \<and>
           button_at k p st2 = Some new_button"
    using records texts failed restored all_lists [of st2 st, OF same]
    unfolding Let_def st1_def st2_def by simp
next
  assume a: "currentInteraction dp = Some ci \<and> truthy (professional_description ci) \<and>
             tb_displayed (translateBtn dp) \<and> \<not> tb_disabled (translateBtn dp)"
  note failed = requestTranslation_failed [OF assms, of dp ci]
  from a show "let dp1 = click_translateBtn resp dp in
           currentInteraction dp1 = Some ci \<and>
           selectedInteraction dp1 = selectedInteraction dp \<and>
           detailsCard dp1 = detailsCard dp \<and>
           aiSectionShown dp1 = aiSectionShown dp \<and> aiContent dp1 = aiContent dp \<and>
           translateBtn dp1 = (translateBtn dp)\<lparr>tb_label := generate_label\<rparr>"
    using failed by (simp add: click_translateBtn_def Let_def)
qed

theorem failed_translation_keeps_state_witness:
  "\<not> translation_succeeded NoResponse \<and>
   button_at DrugDrug 0 two_cards_page = Some new_button \<and>
   drugDrugInteractions (click_translate DrugDrug 0 NoResponse two_cards_page) =
     drugDrugInteractions two_cards_page \<and>
   button_at DrugDrug 0 (click_translate DrugDrug 0 NoResponse two_cards_page) =
     Some \<lparr>btn_disabled = True, btn_label = ''Translation failed'',
            btn_reset_pending = True\<rparr> \<and>
   drugDrugList (reset_timeout DrugDrug 0 (click_translate DrugDrug 0 NoResponse two_cards_page)) =
     drugDrugList two_cards_page \<and>
   currentInteraction warfarin_details_page = Some warfarin_interaction \<and>
   truthy (professional_description warfarin_interaction) \<and>
   tb_displayed (translateBtn warfarin_details_page) \<and>
   \<not> tb_disabled (translateBtn warfarin_details_page) \<and>
   currentInteraction (click_translateBtn NoResponse warfarin_details_page) =
     Some warfarin_interaction \<and>
   detailsCard (click_translateBtn NoResponse warfarin_details_page) =
     detailsCard warfarin_details_page \<and>
   translateBtn (click_translateBtn NoResponse warfarin_details_page) =
     (translateBtn warfarin_details_page)\<lparr>tb_label := generate_label\<rparr>"
proof -
  have failed: "\<not> translation_succeeded NoResponse"
    by (simp add: translation_succeeded_def)
  have btn: "button_at DrugDrug 0 two_cards_page = Some new_button"
    by code_simp
  have details:
    "currentInteraction warfarin_details_page = Some warfarin_interaction"
    "truthy (professional_description warfarin_interaction)"
    "tb_displayed (translateBtn warfarin_details_page)"
    "\<not> tb_disabled (translateBtn warfarin_details_page)"
    by code_simp+
  show ?thesis
    using failed btn details
      failed_translation_keeps_state
        [OF failed, where k = DrugDrug and p = 0 and st = two_cards_page
           and dp = warfarin_details_page and ci = warfarin_interaction]
    by (simp add: Let_def)
qed

subsection \<open>Rendering a list\<close>

lemma cards_of_map_cards [simp]: "cards_of (map_cards f c) = map f (cards_of c)"
  by (cases c) simp_all

lemma expanded_add_listener [simp]: "card_expanded (add_listener c) = card_expanded c"
  by (simp add: add_listener_def)

lemma description_add_listener [simp]: "card_description (add_listener c) = card_description c"
  by (simp add: add_listener_def)

lemma button_add_listener [simp]: "card_translate_btn (add_listener c) = card_translate_btn c"
  by (simp add: add_listener_def)

lemma index_add_listener [simp]: "card_index (add_listener c) = card_index c"
  by (simp add: add_listener_def)

lemma expanded_after_listeners [simp]:
  "map card_expanded (map add_listener cs) = map card_expanded cs"
  by (simp add: comp_def)

lemma renderDrugDrugInteractions_cards:
  "cards_of (drugDrugList (renderDrugDrugInteractions st)) =
     map (\<lambda>(i, r). add_listener (createInteractionCard r ''drug'' i))
       (enumerate 0 (drugDrugInteractions st))"
  by (simp add: renderDrugDrugInteractions_def setupCardListeners_def Let_def comp_def
        case_prod_unfold)

lemma renderFoodInteractions_cards:
  "cards_of (foodList (renderFoodInteractions st)) =
     map (\<lambda>(i, r). add_listener (createFoodInteractionCard r i))
       (enumerate 0 (foodInteractions st))"
  by (simp add: renderFoodInteractions_def setupCardListeners_def Let_def comp_def
        case_prod_unfold)

lemma renderDiseaseInteractions_cards:
  "cards_of (diseaseList (renderDiseaseInteractions st)) =
     map (\<lambda>(i, r). add_listener (createDiseaseInteractionCard r i))
       (enumerate 0 (diseaseInteractions st))"
  by (simp add: renderDiseaseInteractions_def setupCardListeners_def Let_def comp_def
        case_prod_unfold)

lemma renderDrugDrugInteractions_others:
  "map card_expanded (cards_of (foodList (renderDrugDrugInteractions st))) =
     map card_expanded (cards_of (foodList st))"
  "map card_expanded (cards_of (diseaseList (renderDrugDrugInteractions st))) =
     map card_expanded (cards_of (diseaseList st))"
  by (simp_all add: renderDrugDrugInteractions_def setupCardListeners_def Let_def)

lemma renderFoodInteractions_others:
  "map card_expanded (cards_of (drugDrugList (renderFoodInteractions st))) =
     map card_expanded (cards_of (drugDrugList st))"
  "map card_expanded (cards_of (diseaseList (renderFoodInteractions st))) =
     map card_expanded (cards_of (diseaseList st))"
  by (simp_all add: renderFoodInteractions_def setupCardListeners_def Let_def)

lemma renderDiseaseInteractions_others:
  "map card_expanded (cards_of (drugDrugList (renderDiseaseInteractions st))) =
     map card_expanded (cards_of (drugDrugList st))"
  "map card_expanded (cards_of (foodList (renderDiseaseInteractions st))) =
     map card_expanded (cards_of (foodList st))"
  by (simp_all add: renderDiseaseInteractions_def setupCardListeners_def Let_def)

lemma created_cards_expanded [simp]:
  "card_expanded (createInteractionCard r ty i)"
  "card_expanded (createFoodInteractionCard r i)"
  "card_expanded (createDiseaseInteractionCard r i)"
  by (simp_all add: createInteractionCard_def createFoodInteractionCard_def
        createDiseaseInteractionCard_def Let_def)

lemma created_cards_index [simp]:
  "card_index (createInteractionCard r ty i) = i"
  "card_index (createFoodInteractionCard r i) = i"
  "card_index (createDiseaseInteractionCard r i) = i"
  by (simp_all add: createInteractionCard_def createFoodInteractionCard_def
        createDiseaseInteractionCard_def Let_def)

lemma created_cards_description [simp]:
  "card_description (createInteractionCard r ty i) =
     or_else (ai_description r)
       (or_else (professional_description r) ''No description available'')"
  "card_description (createFoodInteractionCard r i) =
     or_else (ai_description r)
       (or_else (professional_description r) ''No description available'')"
  "card_description (createDiseaseInteractionCard r i) =
     or_else (ai_description r)
       (or_else (professional_description r) ''No description available'')"
  by (simp_all add: createInteractionCard_def createFoodInteractionCard_def
        createDiseaseInteractionCard_def Let_def)

lemma or_else_default_nonempty [simp]: "d \<noteq> [] \<Longrightarrow> or_else v d \<noteq> []"
  by (simp add: or_else_def split: option.splits)

lemma created_cards_button [simp]:
  "card_translate_btn (createInteractionCard r ty i) =
     (if truthy (ai_description r) then None else Some new_button)"
  "card_translate_btn (createFoodInteractionCard r i) =
     (if truthy (ai_description r) then None else Some new_button)"
  "card_translate_btn (createDiseaseInteractionCard r i) =
     (if truthy (ai_description r) then None else Some new_button)"
  by (simp_all add: createInteractionCard_def createFoodInteractionCard_def
        createDiseaseInteractionCard_def Let_def)

lemma all_expanded:
  "map card_expanded (map (\<lambda>(i, r). add_listener (createInteractionCard r ty i)) irs) =
     replicate (length irs) True"
  "map card_expanded (map (\<lambda>(i, r). add_listener (createFoodInteractionCard r i)) irs) =
     replicate (length irs) True"
  "map card_expanded (map (\<lambda>(i, r). add_listener (createDiseaseInteractionCard r i)) irs) =
     replicate (length irs) True"
  by (induction irs) (simp_all add: case_prod_unfold)

lemma all_expanded_comp:
  "map (card_expanded \<circ> (\<lambda>(i, r). add_listener (createInteractionCard r ty i))) irs =
     replicate (length irs) True"
  "map (card_expanded \<circ> (\<lambda>(i, r). add_listener (createFoodInteractionCard r i))) irs =
     replicate (length irs) True"
  "map (card_expanded \<circ> (\<lambda>(i, r). add_listener (createDiseaseInteractionCard r i))) irs =
     replicate (length irs) True"
  using all_expanded(1) [of ty irs] all_expanded(2) [of irs] all_expanded(3) [of irs]
  by simp_all

lemma get_list_expand_card [simp]:
  "get_list k (expand_card k i st) =
     update_card i (\<lambda>c. c\<lparr>card_expanded := True\<rparr>) (get_list k st)"
  by (simp add: expand_card_def)

lemma get_list_expand_card_other [simp]:
  "k' \<noteq> k \<Longrightarrow> get_list k' (expand_card k i st) = get_list k' st"
  by (simp add: expand_card_def)

lemma expand_expanded:
  "map card_expanded cs = replicate (length cs) True \<Longrightarrow>
     cards_of (update_card i (\<lambda>c. c\<lparr>card_expanded := True\<rparr>) (Cards cs)) = cs"
proof -
  assume a: "map card_expanded cs = replicate (length cs) True"
  have "i < length cs \<Longrightarrow> card_expanded (cs ! i)"
  proof -
    assume "i < length cs"
    then have "map card_expanded cs ! i = card_expanded (cs ! i)" by simp
    with a \<open>i < length cs\<close> show ?thesis by simp
  qed
  then show ?thesis by (simp add: list_update_same_conv)
qed


subsection \<open>A successful translation\<close>

lemma lists_start_translating [simp]:
  "k' \<noteq> k \<Longrightarrow> get_list k' (start_translating k p st) = get_list k' st"
  by (simp add: start_translating_def)

lemma records_start_translating [simp]:
  "drugDrugInteractions (start_translating k p st) = drugDrugInteractions st"
  "foodInteractions (start_translating k p st) = foodInteractions st"
  "diseaseInteractions (start_translating k p st) = diseaseInteractions st"
  by (simp_all add: start_translating_def)

lemma translateDescription_succeeded:
  assumes "index < length (drugDrugInteractions st)"
    and st'_def: "st' = translateDescription index p (Response True (Reply t)) st"
  shows "cards_of (drugDrugList st') =
           map (\<lambda>(i, r). add_listener (createInteractionCard r ''drug'' i))
             (enumerate 0
                ((drugDrugInteractions st)
                   [index := (drugDrugInteractions st ! index)
                      \<lparr>ai_description := t, patient_description := t\<rparr>]))"
    and "map card_expanded (cards_of (foodList st')) = map card_expanded (cards_of (foodList st))"
    and "map card_expanded (cards_of (diseaseList st')) =
           map card_expanded (cards_of (diseaseList st))"
proof -
  define recs where
    "recs = (drugDrugInteractions st)
              [index := (drugDrugInteractions st ! index)
                 \<lparr>ai_description := t, patient_description := t\<rparr>]"
  define st3 where
    "st3 = (fetch (TranslateDescription
                     (professional_description (drugDrugInteractions st ! index))
                     (interaction_id (drugDrugInteractions st ! index)))
              (start_translating DrugDrug p st))\<lparr>drugDrugInteractions := recs\<rparr>"
  have st': "st' = expand_card DrugDrug index (renderDrugDrugInteractions st3)"
    using assms(1) by (simp add: st'_def translateDescription_def Let_def st3_def recs_def)
  have recs3: "drugDrugInteractions st3 = recs" by (simp add: st3_def)
  have ne: "recs \<noteq> []" using assms(1) by (auto simp add: recs_def)
  have rendered:
    "drugDrugList (renderDrugDrugInteractions st3) =
       Cards (map (\<lambda>(i, r). add_listener (createInteractionCard r ''drug'' i))
                (enumerate 0 recs))"
    using ne
    by (simp add: renderDrugDrugInteractions_def setupCardListeners_def recs3 comp_def
          case_prod_unfold)
  have "cards_of (drugDrugList st') =
          cards_of (update_card index (\<lambda>c. c\<lparr>card_expanded := True\<rparr>)
                      (drugDrugList (renderDrugDrugInteractions st3)))"
    using get_list_expand_card [of DrugDrug index "renderDrugDrugInteractions st3"]
    by (simp add: st' get_list_def)
  also have "\<dots> = map (\<lambda>(i, r). add_listener (createInteractionCard r ''drug'' i))
                       (enumerate 0 recs)"
    unfolding rendered
    using all_expanded(1) [of "''drug''" "enumerate 0 recs"]
    by (intro expand_expanded) simp
  finally show "cards_of (drugDrugList st') =
           map (\<lambda>(i, r). add_listener (createInteractionCard r ''drug'' i))
             (enumerate 0
                ((drugDrugInteractions st)
                   [index := (drugDrugInteractions st ! index)
                      \<lparr>ai_description := t, patient_description := t\<rparr>]))"
    by (simp add: recs_def)
  have "get_list Food st3 = get_list Food st" "get_list Disease st3 = get_list Disease st"
    by (simp_all add: st3_def get_list_def fetch_def start_translating_def update_button_def
          set_list_def)
  then have others: "foodList st3 = foodList st" "diseaseList st3 = diseaseList st"
    by (simp_all add: get_list_def)
  have "foodList st' = foodList (renderDrugDrugInteractions st3)"
    using get_list_expand_card_other [of Food DrugDrug index "renderDrugDrugInteractions st3"]
    by (simp add: st' get_list_def)
  then show "map card_expanded (cards_of (foodList st')) =
               map card_expanded (cards_of (foodList st))"
    by (simp add: renderDrugDrugInteractions_others others)
  have "diseaseList st' = diseaseList (renderDrugDrugInteractions st3)"
    using get_list_expand_card_other [of Disease DrugDrug index "renderDrugDrugInteractions st3"]
    by (simp add: st' get_list_def)
  then show "map card_expanded (cards_of (diseaseList st')) =
               map card_expanded (cards_of (diseaseList st))"
    by (simp add: renderDrugDrugInteractions_others others)
qed

lemma translateFoodDescription_succeeded:
  assumes "index < length (foodInteractions st)"
    and st'_def: "st' = translateFoodDescription index p (Response True (Reply t)) st"
  shows "cards_of (foodList st') =
           map (\<lambda>(i, r). add_listener (createFoodInteractionCard r i))
             (enumerate 0
                ((foodInteractions st)
                   [index := (foodInteractions st ! index)
                      \<lparr>ai_description := t\<rparr>]))"
    and "map card_expanded (cards_of (drugDrugList st')) = map card_expanded (cards_of (drugDrugList st))"
    and "map card_expanded (cards_of (diseaseList st')) =
           map card_expanded (cards_of (diseaseList st))"
proof -
  define recs where
    "recs = (foodInteractions st)
              [index := (foodInteractions st ! index)
                 \<lparr>ai_description := t\<rparr>]"
  define st3 where
    "st3 = (fetch (TranslateDescription
                     (professional_description (foodInteractions st ! index))
                     None)
              (start_translating Food p st))\<lparr>foodInteractions := recs\<rparr>"
  have st': "st' = expand_card Food index (renderFoodInteractions st3)"
    using assms(1) by (simp add: st'_def translateFoodDescription_def Let_def st3_def recs_def)
  have recs3: "foodInteractions st3 = recs" by (simp add: st3_def)
  have ne: "recs \<noteq> []" using assms(1) by (auto simp add: recs_def)
  have rendered:
    "foodList (renderFoodInteractions st3) =
       Cards (map (\<lambda>(i, r). add_listener (createFoodInteractionCard r i))
                (enumerate 0 recs))"
    using ne
    by (simp add: renderFoodInteractions_def setupCardListeners_def recs3 comp_def
          case_prod_unfold)
  have "cards_of (foodList st') =
          cards_of (update_card index (\<lambda>c. c\<lparr>card_expanded := True\<rparr>)
                      (foodList (renderFoodInteractions st3)))"
    using get_list_expand_card [of Food index "renderFoodInteractions st3"]
    by (simp add: st' get_list_def)
  also have "\<dots> = map (\<lambda>(i, r). add_listener (createFoodInteractionCard r i))
                       (enumerate 0 recs)"
    unfolding rendered
    using all_expanded(2) [of "enumerate 0 recs"]
    by (intro expand_expanded) simp
  finally show "cards_of (foodList st') =
           map (\<lambda>(i, r). add_listener (createFoodInteractionCard r i))
             (enumerate 0
                ((foodInteractions st)
                   [index := (foodInteractions st ! index)
                      \<lparr>ai_description := t\<rparr>]))"
    by (simp add: recs_def)
  have "get_list DrugDrug st3 = get_list DrugDrug st" "get_list Disease st3 = get_list Disease st"
    by (simp_all add: st3_def get_list_def fetch_def start_translating_def update_button_def
          set_list_def)
  then have others: "drugDrugList st3 = drugDrugList st" "diseaseList st3 = diseaseList st"
    by (simp_all add: get_list_def)
  have "drugDrugList st' = drugDrugList (renderFoodInteractions st3)"
    using get_list_expand_card_other [of DrugDrug Food index "renderFoodInteractions st3"]
    by (simp add: st' get_list_def)
  then show "map card_expanded (cards_of (drugDrugList st')) =
               map card_expanded (cards_of (drugDrugList st))"
    by (simp add: renderFoodInteractions_others others)
  have "diseaseList st' = diseaseList (renderFoodInteractions st3)"
    using get_list_expand_card_other [of Disease Food index "renderFoodInteractions st3"]
    by (simp add: st' get_list_def)
  then show "map card_expanded (cards_of (diseaseList st')) =
               map card_expanded (cards_of (diseaseList st))"
    by (simp add: renderFoodInteractions_others others)
qed

lemma translateDiseaseDescription_succeeded:
  assumes "index < length (diseaseInteractions st)"
    and st'_def: "st' = translateDiseaseDescription index p (Response True (Reply t)) st"
  shows "cards_of (diseaseList st') =
           map (\<lambda>(i, r). add_listener (createDiseaseInteractionCard r i))
             (enumerate 0
                ((diseaseInteractions st)
                   [index := (diseaseInteractions st ! index)
                      \<lparr>ai_description := t\<rparr>]))"
    and "map card_expanded (cards_of (drugDrugList st')) = map card_expanded (cards_of (drugDrugList st))"
    and "map card_expanded (cards_of (foodList st')) =
           map card_expanded (cards_of (foodList st))"
proof -
  define recs where
    "recs = (diseaseInteractions st)
              [index := (diseaseInteractions st ! index)
                 \<lparr>ai_description := t\<rparr>]"
  define st3 where
    "st3 = (fetch (TranslateDescription
                     (professional_description (diseaseInteractions st ! index))
                     None)
              (start_translating Disease p st))\<lparr>diseaseInteractions := recs\<rparr>"
  have st': "st' = expand_card Disease index (renderDiseaseInteractions st3)"
    using assms(1) by (simp add: st'_def translateDiseaseDescription_def Let_def st3_def recs_def)
  have recs3: "diseaseInteractions st3 = recs" by (simp add: st3_def)
  have ne: "recs \<noteq> []" using assms(1) by (auto simp add: recs_def)
  have rendered:
    "diseaseList (renderDiseaseInteractions st3) =
       Cards (map (\<lambda>(i, r). add_listener (createDiseaseInteractionCard r i))
                (enumerate 0 recs))"
    using ne
    by (simp add: renderDiseaseInteractions_def setupCardListeners_def recs3 comp_def
          case_prod_unfold)
  have "cards_of (diseaseList st') =
          cards_of (update_card index (\<lambda>c. c\<lparr>card_expanded := True\<rparr>)
                      (diseaseList (renderDiseaseInteractions st3)))"
    using get_list_expand_card [of Disease index "renderDiseaseInteractions st3"]
    by (simp add: st' get_list_def)
  also have "\<dots> = map (\<lambda>(i, r). add_listener (createDiseaseInteractionCard r i))
                       (enumerate 0 recs)"
    unfolding rendered
    using all_expanded(3) [of "enumerate 0 recs"]
    by (intro expand_expanded) simp
  finally show "cards_of (diseaseList st') =
           map (\<lambda>(i, r). add_listener (createDiseaseInteractionCard r i))
             (enumerate 0
                ((diseaseInteractions st)
                   [index := (diseaseInteractions st ! index)
                      \<lparr>ai_description := t\<rparr>]))"
    by (simp add: recs_def)
  have "get_list DrugDrug st3 = get_list DrugDrug st" "get_list Food st3 = get_list Food st"
    by (simp_all add: st3_def get_list_def fetch_def start_translating_def update_button_def
          set_list_def)
  then have others: "drugDrugList st3 = drugDrugList st" "foodList st3 = foodList st"
    by (simp_all add: get_list_def)
  have "drugDrugList st' = drugDrugList (renderDiseaseInteractions st3)"
    using get_list_expand_card_other [of DrugDrug Disease index "renderDiseaseInteractions st3"]
    by (simp add: st' get_list_def)
  then show "map card_expanded (cards_of (drugDrugList st')) =
               map card_expanded (cards_of (drugDrugList st))"
    by (simp add: renderDiseaseInteractions_others others)
  have "foodList st' = foodList (renderDiseaseInteractions st3)"
    using get_list_expand_card_other [of Food Disease index "renderDiseaseInteractions st3"]
    by (simp add: st' get_list_def)
  then show "map card_expanded (cards_of (foodList st')) =
               map card_expanded (cards_of (foodList st))"
    by (simp add: renderDiseaseInteractions_others others)
qed

text \<open>
  Claim C7, as amended. After a successful translate action on a card, the list of
  that card is rendered again as a whole: it holds one card per interaction, every
  card of that list is expanded whatever its state was before, and the translated card
  shows the new text (the professional description if the answer carries no text).
  The cards of the other two lists keep their expand/collapse state.
\<close>

theorem translation_renders_list_again:
  "(index < length (drugDrugInteractions st) \<longrightarrow>
      (let st' = translateDescription index p (Response True (Reply t)) st in
         map card_expanded (cards_of (drugDrugList st')) =
           replicate (length (drugDrugInteractions st)) True \<and>
         card_description (cards_of (drugDrugList st') ! index) =
           or_else t (or_else (professional_description (drugDrugInteractions st ! index))
                        ''No description available'') \<and>
         map card_expanded (cards_of (foodList st')) =
           map card_expanded (cards_of (foodList st)) \<and>
         map card_expanded (cards_of (diseaseList st')) =
           map card_expanded (cards_of (diseaseList st)))) \<and>
   (index < length (foodInteractions st) \<longrightarrow>
      (let st' = translateFoodDescription index p (Response True (Reply t)) st in
         map card_expanded (cards_of (foodList st')) =
           replicate (length (foodInteractions st)) True \<and>
         card_description (cards_of (foodList st') ! index) =
           or_else t (or_else (professional_description (foodInteractions st ! index))
                        ''No description available'') \<and>
         map card_expanded (cards_of (drugDrugList st')) =
           map card_expanded (cards_of (drugDrugList st)) \<and>
         map card_expanded (cards_of (diseaseList st')) =
           map card_expanded (cards_of (diseaseList st)))) \<and>
   (index < length (diseaseInteractions st) \<longrightarrow>
      (let st' = translateDiseaseDescription index p (Response True (Reply t)) st in
         map card_expanded (cards_of (diseaseList st')) =
           replicate (length (diseaseInteractions st)) True \<and>
         card_description (cards_of (diseaseList st') ! index) =
           or_else t (or_else (professional_description (diseaseInteractions st ! index))
                        ''No description available'') \<and>
         map card_expanded (cards_of (drugDrugList st')) =
           map card_expanded (cards_of (drugDrugList st)) \<and>
         map card_expanded (cards_of (foodList st')) =
           map card_expanded (cards_of (foodList st))))"
proof (intro conjI impI)
  assume i: "index < length (drugDrugInteractions st)"
  note s = translateDescription_succeeded [OF i refl, of p t]
  from i show "let st' = translateDescription index p (Response True (Reply t)) st in
         map card_expanded (cards_of (drugDrugList st')) =
           replicate (length (drugDrugInteractions st)) True \<and>
         card_description (cards_of (drugDrugList st') ! index) =
           or_else t (or_else (professional_description (drugDrugInteractions st ! index))
                        ''No description available'') \<and>
         map card_expanded (cards_of (foodList st')) =
           map card_expanded (cards_of (foodList st)) \<and>
         map card_expanded (cards_of (diseaseList st')) =
           map card_expanded (cards_of (diseaseList st))"
    unfolding Let_def s by (simp add: all_expanded_comp nth_enumerate_eq)
next
  assume i: "index < length (foodInteractions st)"
  note s = translateFoodDescription_succeeded [OF i refl, of p t]
  from i show "let st' = translateFoodDescription index p (Response True (Reply t)) st in
         map card_expanded (cards_of (foodList st')) =
           replicate (length (foodInteractions st)) True \<and>
         card_description (cards_of (foodList st') ! index) =
           or_else t (or_else (professional_description (foodInteractions st ! index))
                        ''No description available'') \<and>
         map card_expanded (cards_of (drugDrugList st')) =
           map card_expanded (cards_of (drugDrugList st)) \<and>
         map card_expanded (cards_of (diseaseList st')) =
           map card_expanded (cards_of (diseaseList st))"
    unfolding Let_def s by (simp add: all_expanded_comp nth_enumerate_eq)
next
  assume i: "index < length (diseaseInteractions st)"
  note s = translateDiseaseDescription_succeeded [OF i refl, of p t]
  from i show "let st' = translateDiseaseDescription index p (Response True (Reply t)) st in
         map card_expanded (cards_of (diseaseList st')) =
           replicate (length (diseaseInteractions st)) True \<and>
         card_description (cards_of (diseaseList st') ! index) =
           or_else t (or_else (professional_description (diseaseInteractions st ! index))
                        ''No description available'') \<and>
         map card_expanded (cards_of (drugDrugList st')) =
           map card_expanded (cards_of (drugDrugList st)) \<and>
         map card_expanded (cards_of (foodList st')) =
           map card_expanded (cards_of (foodList st))"
    unfolding Let_def s by (simp add: all_expanded_comp nth_enumerate_eq)
qed

theorem translation_renders_list_again_witness:
  "0 < length (drugDrugInteractions three_lists_page) \<and>
   map card_expanded
     (cards_of (drugDrugList
        (translateDescription 0 0 (Response True (Reply (Some ''Taking both can cause bleeding.'')))
           three_lists_page))) = [True, True] \<and>
   0 < length (foodInteractions three_lists_page) \<and>
   map card_expanded
     (cards_of (foodList
        (translateFoodDescription 0 0 (Response True (Reply (Some ''Taking both can cause bleeding.'')))
           three_lists_page))) = [True] \<and>
   0 < length (diseaseInteractions three_lists_page) \<and>
   map card_expanded
     (cards_of (diseaseList
        (translateDiseaseDescription 0 0 (Response True (Reply (Some ''May weaken the effect.'')))
           three_lists_page))) = [True]"
proof -
  have len:
    "length (drugDrugInteractions three_lists_page) = 2"
    "length (foodInteractions three_lists_page) = 1"
    "length (diseaseInteractions three_lists_page) = 1"
    by code_simp+
  show ?thesis
    using len
      translation_renders_list_again
        [where index = 0 and st = three_lists_page and p = 0
           and t = "Some ''Taking both can cause bleeding.''"]
      translation_renders_list_again
        [where index = 0 and st = three_lists_page and p = 0
           and t = "Some ''May weaken the effect.''"]
    by (simp add: Let_def numeral_2_eq_2)
qed

text \<open>
  The second card of the drug list is collapsed with a click on its header; after the
  first card is translated, the second card is expanded.
\<close>

theorem collapsed_card_counterexample:
  "\<not> card_expanded (cards_of (drugDrugList second_collapsed_page) ! 1) \<and>
   card_expanded
     (cards_of (drugDrugList
        (click_translate DrugDrug 0 (Response True (Reply (Some ''Taking both can cause bleeding.'')))
           second_collapsed_page)) ! 1)"
  by code_simp

subsection \<open>Records that carry an AI description\<close>

lemma or_else_truthy: "truthy v \<Longrightarrow> or_else v d = the v"
  by (auto simp add: truthy_def or_else_def split: option.splits)

lemma renderDetails_translated:
  assumes "truthy (ai_description r)"
  shows "aiContent (renderDetails (dp\<lparr>currentInteraction := Some r\<rparr>)) = the (ai_description r)"
    and "aiSectionShown (renderDetails (dp\<lparr>currentInteraction := Some r\<rparr>))"
    and "\<not> tb_displayed (translateBtn (renderDetails (dp\<lparr>currentInteraction := Some r\<rparr>)))"
  using assms
  by (auto simp add: renderDetails_def showAIDescription_def Let_def truthy_def
        split: option.splits)

text \<open>A cache hit returns the stored text and changes nothing, however often it is repeated.\<close>

lemma translate_hit:
  "truthy (stored_ai_description srv i) \<Longrightarrow>
     translate p i ptext srv = (Inr (the (stored_ai_description srv i)), srv)"
  by (simp add: translate_def)

lemma translate_hit_repeated:
  "truthy (stored_ai_description srv i) \<Longrightarrow>
     ((\<lambda>s. snd (translate p i ptext s)) ^^ n) srv = srv"
  by (induction n) (simp_all add: translate_hit)

lemma translate_description_hit:
  assumes "truthy (stored_ai_description srv i)"
  shows "translate_description p pd (Some i) srv =
           (Response True (Reply (Some (the (stored_ai_description srv i)))), srv)"
  using assms by (simp add: translate_description_def translate_hit Let_def)

lemma truthy_Some: "truthy v \<Longrightarrow> Some (the v) = v"
  by (cases v) (simp_all add: truthy_def)

lemma translateDescription_succeeded_state:
  assumes "index < length (drugDrugInteractions st)"
  shows "drugDrugInteractions (translateDescription index p (Response True (Reply t)) st) =
           (drugDrugInteractions st)
             [index := (drugDrugInteractions st ! index)
                \<lparr>ai_description := t, patient_description := t\<rparr>]"
    and "network (translateDescription index p (Response True (Reply t)) st) =
           network st @ [TranslateDescription
                           (professional_description (drugDrugInteractions st ! index))
                           (interaction_id (drugDrugInteractions st ! index))]"
  using assms
  by (simp_all add: translateDescription_def Let_def expand_card_def
        renderDrugDrugInteractions_def setupCardListeners_def start_translating_def)

lemma renderDetails_current [simp]:
  "currentInteraction (renderDetails dp) = currentInteraction dp"
  by (simp add: renderDetails_def showAIDescription_def Let_def split: option.splits)

lemma same_ai_description [simp]: "r\<lparr>ai_description := ai_description r\<rparr> = r"
  by simp

lemma requestTranslation_cached:
  assumes "truthy (ai_description r)"
  shows "currentInteraction
           (requestTranslation (Response True (Reply (ai_description r)))
              (renderDetails (dp\<lparr>currentInteraction := Some r\<rparr>))) = Some r"
    and "aiContent
           (requestTranslation (Response True (Reply (ai_description r)))
              (renderDetails (dp\<lparr>currentInteraction := Some r\<rparr>))) =
         the (ai_description r)"
proof -
  note shown = renderDetails_translated [OF assms, of dp]
  have cur: "currentInteraction (renderDetails (dp\<lparr>currentInteraction := Some r\<rparr>)) = Some r"
    by simp
  show "currentInteraction
           (requestTranslation (Response True (Reply (ai_description r)))
              (renderDetails (dp\<lparr>currentInteraction := Some r\<rparr>))) = Some r"
    using cur by (simp add: requestTranslation_def Let_def showAIDescription_def fetch_def)
  show "aiContent
           (requestTranslation (Response True (Reply (ai_description r)))
              (renderDetails (dp\<lparr>currentInteraction := Some r\<rparr>))) =
         the (ai_description r)"
    using cur shown(1) assms
    by (auto simp add: requestTranslation_def Let_def showAIDescription_def fetch_def
          truthy_def split: option.splits)
qed

text \<open>
  Claim C3. For an interaction record that already carries a non-empty AI description:
  \<^item> \<open>translate\<close> of the translation cache returns that description and leaves the
    cache as it is, on a first call, on a second call after it, and over any number of
    calls: the log of paraphraser calls does not grow and the text is the same;
  \<^item> each of the three card templates of the results page, and each of the two of the
    dashboard, shows the AI description as the description and renders no translate
    button, and the details page shows it in its AI section and does not display the
    translate button;
  \<^item> when \<open>translateDescription\<close> or \<open>requestTranslation\<close> is run on such a record all
    the same, and the server stores the AI description the record carries, the request
    is answered from the cache: the paraphraser is not called, the record keeps its AI
    description and the view shows the same text as before.
\<close>

theorem cached_translation_is_reused:
  "(truthy (stored_ai_description srv i) \<longrightarrow>
      translate p i ptext srv = (Inr (the (stored_ai_description srv i)), srv) \<and>
      translate p' i ptext' (snd (translate p i ptext srv)) =
        (Inr (the (stored_ai_description srv i)), srv) \<and>
      paraphraser_calls (((\<lambda>s. snd (translate p i ptext s)) ^^ n) srv) =
        paraphraser_calls srv) \<and>
   (truthy (ai_description r) \<longrightarrow>
      card_description (createInteractionCard r ty k) = the (ai_description r) \<and>
      card_translate_btn (createInteractionCard r ty k) = None \<and>
      card_description (createFoodInteractionCard r k) = the (ai_description r) \<and>
      card_translate_btn (createFoodInteractionCard r k) = None \<and>
      card_description (createDiseaseInteractionCard r k) = the (ai_description r) \<and>
      card_translate_btn (createDiseaseInteractionCard r k) = None \<and>
      rc_description (foodResultCard r) = the (ai_description r) \<and>
      rc_translate_btn (foodResultCard r) = None \<and>
      rc_description (diseaseResultCard r) = the (ai_description r) \<and>
      rc_translate_btn (diseaseResultCard r) = None \<and>
      aiContent (renderDetails (dp\<lparr>currentInteraction := Some r\<rparr>)) = the (ai_description r) \<and>
      \<not> tb_displayed (translateBtn (renderDetails (dp\<lparr>currentInteraction := Some r\<rparr>)))) \<and>
   (truthy (ai_description r) \<and> interaction_id r = Some i \<and>
    stored_ai_description srv i = ai_description r \<longrightarrow>
      (index < length (drugDrugInteractions pg) \<and> drugDrugInteractions pg ! index = r \<longrightarrow>
         (let answer = translate_description p (professional_description r) (interaction_id r) srv;
              pg' = translateDescription index pos (fst answer) pg
          in snd answer = srv \<and>
             issued pg pg' =
               [TranslateDescription (professional_description r) (interaction_id r)] \<and>
             ai_description (drugDrugInteractions pg' ! index) = ai_description r \<and>
             card_description (cards_of (drugDrugList pg') ! index) = the (ai_description r))) \<and>
      (let answer = translate_description p (professional_description r) (interaction_id r) srv;
           dp' = requestTranslation (fst answer) (renderDetails (dp\<lparr>currentInteraction := Some r\<rparr>))
       in snd answer = srv \<and> currentInteraction dp' = Some r \<and>
          aiContent dp' = the (ai_description r)))"
proof (intro conjI impI)
  assume hit: "truthy (stored_ai_description srv i)"
  show "translate p i ptext srv = (Inr (the (stored_ai_description srv i)), srv)"
    by (rule translate_hit [OF hit])
  then show "translate p' i ptext' (snd (translate p i ptext srv)) =
               (Inr (the (stored_ai_description srv i)), srv)"
    by (simp add: translate_hit [OF hit])
  show "paraphraser_calls (((\<lambda>s. snd (translate p i ptext s)) ^^ n) srv) =
          paraphraser_calls srv"
    by (simp add: translate_hit_repeated [OF hit])
next
  assume t: "truthy (ai_description r)"
  then show
    "card_description (createInteractionCard r ty k) = the (ai_description r)"
    "card_translate_btn (createInteractionCard r ty k) = None"
    "card_description (createFoodInteractionCard r k) = the (ai_description r)"
    "card_translate_btn (createFoodInteractionCard r k) = None"
    "card_description (createDiseaseInteractionCard r k) = the (ai_description r)"
    "card_translate_btn (createDiseaseInteractionCard r k) = None"
    "rc_description (foodResultCard r) = the (ai_description r)"
    "rc_translate_btn (foodResultCard r) = None"
    "rc_description (diseaseResultCard r) = the (ai_description r)"
    "rc_translate_btn (diseaseResultCard r) = None"
    by (simp_all add: or_else_truthy foodResultCard_def diseaseResultCard_def js_or_def)
  from renderDetails_translated [OF t, of dp] show
    "aiContent (renderDetails (dp\<lparr>currentInteraction := Some r\<rparr>)) = the (ai_description r)"
    "\<not> tb_displayed (translateBtn (renderDetails (dp\<lparr>currentInteraction := Some r\<rparr>)))"
    by simp_all
next
  assume a: "truthy (ai_description r) \<and> interaction_id r = Some i \<and>
             stored_ai_description srv i = ai_description r"
  assume b: "index < length (drugDrugInteractions pg) \<and> drugDrugInteractions pg ! index = r"
  from a have answer:
    "translate_description p (professional_description r) (interaction_id r) srv =
       (Response True (Reply (ai_description r)), srv)"
    using translate_description_hit [of srv i p "professional_description r"]
    by (simp add: truthy_Some)
  from b have i: "index < length (drugDrugInteractions pg)" by simp
  note cards = translateDescription_succeeded(1) [OF i refl, of pos "ai_description r"]
  note state = translateDescription_succeeded_state(1) [OF i, of pos "ai_description r"]
  note sent = translateDescription_succeeded_state(2) [OF i, of pos "ai_description r"]
  from a b show
    "let answer = translate_description p (professional_description r) (interaction_id r) srv;
         pg' = translateDescription index pos (fst answer) pg
     in snd answer = srv \<and>
        issued pg pg' =
          [TranslateDescription (professional_description r) (interaction_id r)] \<and>
        ai_description (drugDrugInteractions pg' ! index) = ai_description r \<and>
        card_description (cards_of (drugDrugList pg') ! index) = the (ai_description r)"
    unfolding Let_def answer fst_conv snd_conv cards state issued_def sent
    by (simp add: nth_enumerate_eq or_else_truthy)
next
  assume a: "truthy (ai_description r) \<and> interaction_id r = Some i \<and>
             stored_ai_description srv i = ai_description r"
  then have answer:
    "translate_description p (professional_description r) (interaction_id r) srv =
       (Response True (Reply (ai_description r)), srv)"
    using translate_description_hit [of srv i p "professional_description r"]
    by (simp add: truthy_Some)
  from a have t: "truthy (ai_description r)" by simp
  show "let answer = translate_description p (professional_description r) (interaction_id r) srv;
           dp' = requestTranslation (fst answer) (renderDetails (dp\<lparr>currentInteraction := Some r\<rparr>))
       in snd answer = srv \<and> currentInteraction dp' = Some r \<and>
          aiContent dp' = the (ai_description r)"
    unfolding Let_def answer fst_conv snd_conv
    using requestTranslation_cached [OF t, of dp] by simp
qed

theorem cached_translation_is_reused_witness:
  "truthy (stored_ai_description example_cache 7) \<and>
   translate other_words 7 ''Concomitant use may potentiate bleeding.'' example_cache =
     (Inr ''Taking both can cause bleeding.'', example_cache) \<and>
   paraphraser_calls
     (snd (translate other_words 7 ''Concomitant use may potentiate bleeding.''
             (snd (translate other_words 7 ''Concomitant use may potentiate bleeding.''
                     example_cache)))) = [] \<and>
   truthy (ai_description translated_interaction) \<and>
   card_description (createInteractionCard translated_interaction ''drug'' 0) =
     ''Taking both can cause bleeding.'' \<and>
   card_translate_btn (createInteractionCard translated_interaction ''drug'' 0) = None \<and>
   interaction_id translated_interaction = Some 7 \<and>
   stored_ai_description example_cache 7 = ai_description translated_interaction \<and>
   0 < length (drugDrugInteractions translated_page) \<and>
   drugDrugInteractions translated_page ! 0 = translated_interaction \<and>
   fst (translate_description other_words (professional_description translated_interaction)
          (interaction_id translated_interaction) example_cache) =
     Response True (Reply (Some ''Taking both can cause bleeding.'')) \<and>
   snd (translate_description other_words (professional_description translated_interaction)
          (interaction_id translated_interaction) example_cache) = example_cache \<and>
   card_description
     (cards_of (drugDrugList
        (translateDescription 0 0
           (fst (translate_description other_words
                   (professional_description translated_interaction)
                   (interaction_id translated_interaction) example_cache))
           translated_page)) ! 0) = ''Taking both can cause bleeding.'' \<and>
   aiContent
     (requestTranslation
        (fst (translate_description other_words
                (professional_description translated_interaction)
                (interaction_id translated_interaction) example_cache))
        (renderDetails (fresh_details_page\<lparr>currentInteraction := Some translated_interaction\<rparr>))) =
     ''Taking both can cause bleeding.''"
proof -
  have stored:
    "stored_ai_description example_cache 7 = Some ''Taking both can cause bleeding.''"
    "paraphraser_calls example_cache = []"
    by (simp_all add: example_cache_def)
  then have hit: "truthy (stored_ai_description example_cache 7)"
    by (simp add: truthy_def)
  have rec:
    "ai_description translated_interaction = Some ''Taking both can cause bleeding.''"
    "interaction_id translated_interaction = Some 7"
    by (simp_all add: translated_interaction_def warfarin_interaction_def empty_interaction_def)
  then have t: "truthy (ai_description translated_interaction)"
    by (simp add: truthy_def)
  have page:
    "0 < length (drugDrugInteractions translated_page)"
    "drugDrugInteractions translated_page ! 0 = translated_interaction"
    by (simp_all add: translated_page_def)
  have answer:
    "translate_description other_words (professional_description translated_interaction)
       (interaction_id translated_interaction) example_cache =
     (Response True (Reply (Some ''Taking both can cause bleeding.'')), example_cache)"
    using hit stored rec by (simp add: translate_description_def translate_def Let_def)
  show ?thesis
    using stored hit rec t page answer
      cached_translation_is_reused
        [where srv = example_cache and i = "7" and p = other_words and ?p' = other_words
           and ptext = "''Concomitant use may potentiate bleeding.''"
           and ?ptext' = "''Concomitant use may potentiate bleeding.''" and n = "2"
           and r = translated_interaction and ty = "''drug''" and k = "0"
           and dp = fresh_details_page and index = "0" and pos = "0" and pg = translated_page]
    by (simp add: Let_def)
qed

subsection \<open>Records without a professional description\<close>

text \<open>
  The dashboard renders no translate button for a record without a professional
  description, and the details page rejects the translation of such a record before
  any request is made.
\<close>

lemma result_cards_without_description:
  "\<not> truthy (professional_description r) \<Longrightarrow>
     rc_translate_btn (foodResultCard r) = None \<and>
     rc_translate_btn (diseaseResultCard r) = None"
  by (simp add: foodResultCard_def diseaseResultCard_def)

lemma requestTranslation_rejects_empty:
  "currentInteraction dp = Some ci \<Longrightarrow> \<not> truthy (professional_description ci) \<Longrightarrow>
     requestTranslation resp dp = dp"
  by (simp add: requestTranslation_def)

text \<open>
  Claim C4. On the results page a drug-drug interaction whose professional description
  is the empty string gets a translate button (the template tests the description
  after the default text was substituted for it, see \<open>created_cards_button\<close>), and a
  click on it sends a \<open>/translate_description\<close> request with the empty description.
\<close>

theorem empty_description_is_requested:
  "professional_description undescribed_interaction = Some [] \<and>
   button_at DrugDrug 0 undescribed_page = Some new_button \<and>
   issued undescribed_page (click_translate DrugDrug 0 NoResponse undescribed_page) =
     [TranslateDescription (Some []) (Some 7)]"
  by code_simp

end
